theory Spec2Isabelle
  imports Main
begin

section \<open>JavaScript values, exceptions and transport responses\<close>

text \<open>
  The API client (\<^verbatim>\<open>src/lib/api.ts\<close>) handles whatever the server sends, so its data
  is modelled as untyped JavaScript values. Numbers are the integers (progress
  percentages); strings are lists of 8-bit characters. \<open>JRef\<close> is a reference to a
  video object held in the heap of the mock module.
\<close>

datatype jsval =
    JUndefined
  | JNull
  | JBool bool
  | JNum int
  | JStr string
  | JArr "jsval list"
  | JObj "(string \<times> jsval) list"
  | JRef nat

text \<open>The truth value JavaScript gives a value in \<^verbatim>\<open>if (v)\<close>, \<^verbatim>\<open>v ? a : b\<close>, \<^verbatim>\<open>a || b\<close>.\<close>

fun truthy :: "jsval \<Rightarrow> bool" where
  "truthy JUndefined = False"
| "truthy JNull = False"
| "truthy (JBool b) = b"
| "truthy (JNum n) = (n \<noteq> 0)"
| "truthy (JStr s) = (s \<noteq> [])"
| "truthy (JArr xs) = True"
| "truthy (JObj kvs) = True"
| "truthy (JRef r) = True"

text \<open>
  A thrown value: an \<^verbatim>\<open>Error\<close> with its message, or anything else. The catch blocks
  of the client read \<^verbatim>\<open>error instanceof Error ? error.message : fallback\<close>.
\<close>

datatype js_exn = JsError string | NonError

definition TypeError_nullish :: js_exn where
  "TypeError_nullish = JsError ''Cannot read properties of null or undefined''"

text \<open>
  Property access \<^verbatim>\<open>v.k\<close> for the keys the client reads (\<^verbatim>\<open>message\<close>, \<^verbatim>\<open>jobId\<close>,
  \<^verbatim>\<open>progress\<close>, \<^verbatim>\<open>completed\<close>, \<^verbatim>\<open>videoData\<close>): a TypeError on \<^verbatim>\<open>null\<close> and
  \<^verbatim>\<open>undefined\<close>, the member of an object (the last one when the JSON text repeats a
  key), and \<^verbatim>\<open>undefined\<close> on every other value.
\<close>

fun getProp :: "jsval \<Rightarrow> string \<Rightarrow> js_exn + jsval" where
  "getProp JUndefined k = Inl TypeError_nullish"
| "getProp JNull k = Inl TypeError_nullish"
| "getProp (JObj kvs) k = Inr (case map_of (rev kvs) k of None \<Rightarrow> JUndefined | Some v \<Rightarrow> v)"
| "getProp v k = Inr JUndefined"

text \<open>\<^verbatim>\<open>s.includes(sub)\<close> on strings.\<close>

fun includes_str :: "string \<Rightarrow> string \<Rightarrow> bool" where
  "includes_str [] sub = (sub = [])"
| "includes_str (c # cs) sub = (take (length sub) (c # cs) = sub \<or> includes_str cs sub)"

text \<open>
  What \<^verbatim>\<open>handleResponse\<close> reads of a \<^verbatim>\<open>Response\<close>: the \<^verbatim>\<open>ok\<close> flag, the
  \<^verbatim>\<open>content-type\<close> header (\<open>None\<close> when \<^verbatim>\<open>headers.get\<close> returns \<^verbatim>\<open>null\<close>), the
  outcome of \<^verbatim>\<open>await response.json()\<close> (which rejects when the body is not JSON) and
  that of \<^verbatim>\<open>await response.text()\<close> (which rejects when the body cannot be read).
\<close>

record response =
  ok :: bool
  contentType :: "string option"
  body_json :: "js_exn + jsval"
  body_text :: "js_exn + string"

text \<open>
  \<^verbatim>\<open>ApiResponse<T>\<close>: both keys are optional in the interface; \<open>None\<close> is an absent
  key.
\<close>

record envelope =
  data :: "jsval option"
  error :: "jsval option"

definition read_data :: "envelope \<Rightarrow> jsval" where
  "read_data e = (case data e of None \<Rightarrow> JUndefined | Some v \<Rightarrow> v)"

definition read_error :: "envelope \<Rightarrow> jsval" where
  "read_error e = (case error e of None \<Rightarrow> JUndefined | Some v \<Rightarrow> v)"

definition data_envelope :: "jsval \<Rightarrow> envelope" where
  "data_envelope v = \<lparr>data = Some v, error = None\<rparr>"

definition error_envelope :: "jsval \<Rightarrow> envelope" where
  "error_envelope v = \<lparr>data = None, error = Some v\<rparr>"

definition isJson :: "response \<Rightarrow> bool" where
  "isJson r = (case contentType r of None \<Rightarrow> False | Some ct \<Rightarrow> includes_str ct ''application/json'')"

definition handleResponse :: "response \<Rightarrow> js_exn + envelope" where
  "handleResponse r =
     (case (if isJson r then body_json r else map_sum id JStr (body_text r)) of
        Inl e \<Rightarrow> Inl e
      | Inr d \<Rightarrow>
          if \<not> ok r then
            (if isJson r then
               (case getProp d ''message'' of
                  Inl e \<Rightarrow> Inl e
                | Inr m \<Rightarrow> Inr (error_envelope (if truthy m then m else JStr ''An error occurred'')))
             else Inr (error_envelope (JStr ''An error occurred'')))
          else Inr (data_envelope d))"


section \<open>Regular expressions with JavaScript's backtracking order\<close>

text \<open>
  The mock handler extracts the video id with a regular expression. The matcher below
  lists the ways a pattern can match at a position in the order in which a backtracking
  engine tries them (greedy quantifiers first the longest, alternatives left to right);
  the first entry is the match JavaScript reports. A state is the index reached, the
  rest of the input and the captures made so far (the most recent first).
\<close>

datatype cclass = Lit char | Dot | WordChar | NoneOf "char list"

definition is_line_terminator :: "char \<Rightarrow> bool" where
  "is_line_terminator c = (c = CHR 0x0A \<or> c = CHR 0x0D)"

definition is_word_char :: "char \<Rightarrow> bool" where
  "is_word_char c =
     (let n = (of_char c :: nat)
      in (48 \<le> n \<and> n \<le> 57) \<or> (65 \<le> n \<and> n \<le> 90) \<or> (97 \<le> n \<and> n \<le> 122) \<or> n = 95)"

fun cmatch :: "cclass \<Rightarrow> char \<Rightarrow> bool" where
  "cmatch (Lit c) x = (x = c)"
| "cmatch Dot x = (\<not> is_line_terminator x)"
| "cmatch WordChar x = is_word_char x"
| "cmatch (NoneOf cs) x = (x \<notin> set cs)"

datatype regex =
    Eps
  | Bol
  | Atom cclass
  | Seq regex regex
  | Alt regex regex
  | Opt regex
  | Star cclass
  | Group nat regex

type_synonym mstate = "nat \<times> string \<times> (nat \<times> string) list"

fun rmatch :: "regex \<Rightarrow> mstate \<Rightarrow> mstate list" where
  "rmatch Eps st = [st]"
| "rmatch Bol (i, s, caps) = (if i = 0 then [(i, s, caps)] else [])"
| "rmatch (Atom c) (i, s, caps) =
     (case s of [] \<Rightarrow> [] | x # xs \<Rightarrow> if cmatch c x then [(Suc i, xs, caps)] else [])"
| "rmatch (Seq a b) st = concat (map (rmatch b) (rmatch a st))"
| "rmatch (Alt a b) st = rmatch a st @ rmatch b st"
| "rmatch (Opt a) st = rmatch a st @ [st]"
| "rmatch (Star c) (i, s, caps) =
     map (\<lambda>n. (i + n, drop n s, caps)) (rev [0..<Suc (length (takeWhile (cmatch c) s))])"
| "rmatch (Group k a) (i, s, caps) =
     map (\<lambda>(j, s', caps'). (j, s', (k, take (j - i) s) # caps')) (rmatch a (i, s, caps))"

text \<open>
  \<^verbatim>\<open>url.match(regExp)\<close> without the global flag: the first start index at which the
  pattern matches, and the captures of the first match there.
\<close>

fun exec_from :: "regex \<Rightarrow> nat \<Rightarrow> string \<Rightarrow> (nat \<times> string) list option" where
  "exec_from re i [] =
     (case rmatch re (i, [], []) of [] \<Rightarrow> None | (j, s', caps) # ms \<Rightarrow> Some caps)"
| "exec_from re i (c # cs) =
     (case rmatch re (i, c # cs, []) of
        [] \<Rightarrow> exec_from re (Suc i) cs
      | (j, s', caps) # ms \<Rightarrow> Some caps)"

definition js_match :: "regex \<Rightarrow> string \<Rightarrow> (nat \<times> string) list option" where
  "js_match re s = exec_from re 0 s"

definition seqs :: "regex list \<Rightarrow> regex" where
  "seqs rs = foldr Seq rs Eps"

definition lit :: "string \<Rightarrow> regex" where
  "lit s = seqs (map (\<lambda>c. Atom (Lit c)) s)"

text \<open>
  \<^verbatim>\<open>/^.*((youtu.be\/)|(v\/)|(\/u\/\w\/)|(embed\/)|(watch\?))\??v?=?([^#&?]*).*/\<close>;
  the dot of \<^verbatim>\<open>youtu.be\<close> is unescaped in the source and matches any character.
\<close>

definition youtubeRegExp :: regex where
  "youtubeRegExp =
     seqs [Bol, Star Dot,
       Group 1
         (Alt (Group 2 (seqs [lit ''youtu'', Atom Dot, lit ''be/'']))
         (Alt (Group 3 (lit ''v/''))
         (Alt (Group 4 (seqs [lit ''/u/'', Atom WordChar, lit ''/'']))
         (Alt (Group 5 (lit ''embed/''))
              (Group 6 (lit ''watch?'')))))),
       Opt (Atom (Lit (CHR ''?''))), Opt (Atom (Lit (CHR ''v''))), Opt (Atom (Lit (CHR ''=''))),
       Group 7 (Star (NoneOf ''#&?'')),
       Star Dot]"

text \<open>
  \<^verbatim>\<open>match && match[7].length === 11 ? match[7] : null\<close>; reading \<^verbatim>\<open>length\<close> of a
  capture that did not take part in the match would throw.
\<close>

definition getYoutubeVideoId :: "string \<Rightarrow> js_exn + string option" where
  "getYoutubeVideoId url =
     (case js_match youtubeRegExp url of
        None \<Rightarrow> Inr None
      | Some caps \<Rightarrow>
          (case map_of caps 7 of
             None \<Rightarrow> Inl TypeError_nullish
           | Some g \<Rightarrow> Inr (if length g = 11 then Some g else None)))"


section \<open>The mock handler and its in-memory video list\<close>

text \<open>
  \<^verbatim>\<open>VideoData\<close> as the mock handler fills it (\<open>video_id\<close> is the field \<^verbatim>\<open>id\<close>,
  \<open>size_text\<close> the field \<^verbatim>\<open>size\<close>; the optional analysis fields are never set by the
  mock handler).
\<close>

datatype video_status = Completed | Processing | Failed

record VideoData =
  video_id :: string
  name :: string
  platform :: string
  date :: string
  status :: video_status
  thumbnail :: string
  duration :: string
  size_text :: string
  url :: "string option"

text \<open>
  The module keeps its videos in one array, \<^verbatim>\<open>mockVideos\<close>, whose elements are
  references to objects; callers receive references to the same objects or to fresh
  arrays. The heap maps references to video objects and to arrays of references;
  \<open>next_ref\<close> is the next unused reference.
\<close>

record heap =
  objects :: "nat \<Rightarrow> VideoData option"
  arrays :: "nat \<Rightarrow> nat list option"
  next_ref :: nat

definition mockVideos :: nat where
  "mockVideos = 0"

definition initial_heap :: heap where
  "initial_heap =
     \<lparr>objects = [
        1 \<mapsto> \<lparr>video_id = ''1'', name = ''Product Demo.mp4'', platform = ''YouTube'',
               date = ''2023-06-15'', status = Completed,
               thumbnail = ''https://images.unsplash.com/photo-1611162616475-46b635cb6868?w=120&q=80'',
               duration = ''2:15'', size_text = ''24.5 MB'', url = None\<rparr>,
        2 \<mapsto> \<lparr>video_id = ''2'', name = ''Tutorial Video.mp4'', platform = ''Instagram'',
               date = ''2023-06-14'', status = Processing,
               thumbnail = ''https://images.unsplash.com/photo-1626379953822-baec19c3accd?w=120&q=80'',
               duration = ''1:30'', size_text = ''18.2 MB'', url = None\<rparr>,
        3 \<mapsto> \<lparr>video_id = ''3'', name = ''Marketing Clip.mp4'', platform = ''TikTok'',
               date = ''2023-06-13'', status = Failed,
               thumbnail = ''https://images.unsplash.com/photo-1536240478700-b869070f9279?w=120&q=80'',
               duration = ''0:45'', size_text = ''8.7 MB'', url = None\<rparr>],
      arrays = [mockVideos \<mapsto> [1, 2, 3]],
      next_ref = 4\<rparr>"

definition array_at :: "heap \<Rightarrow> nat \<Rightarrow> nat list" where
  "array_at h r = (case arrays h r of None \<Rightarrow> [] | Some xs \<Rightarrow> xs)"

definition alloc_object :: "heap \<Rightarrow> VideoData \<Rightarrow> nat \<times> heap" where
  "alloc_object h v =
     (next_ref h, h\<lparr>objects := (objects h)(next_ref h \<mapsto> v), next_ref := Suc (next_ref h)\<rparr>)"

definition alloc_array :: "heap \<Rightarrow> nat list \<Rightarrow> nat \<times> heap" where
  "alloc_array h xs =
     (next_ref h, h\<lparr>arrays := (arrays h)(next_ref h \<mapsto> xs), next_ref := Suc (next_ref h)\<rparr>)"

text \<open>\<^verbatim>\<open>array.unshift(x)\<close>.\<close>

definition unshift :: "heap \<Rightarrow> nat \<Rightarrow> nat \<Rightarrow> heap" where
  "unshift h a x = h\<lparr>arrays := (arrays h)(a \<mapsto> x # array_at h a)\<rparr>"

text \<open>The videos of the list with their references, in the list's order.\<close>

definition video_list :: "heap \<Rightarrow> (nat \<times> VideoData) list" where
  "video_list h =
     List.map_filter (\<lambda>r. map_option (Pair r) (objects h r)) (array_at h mockVideos)"

text \<open>Decimal digits of a natural number, and a number in two digits.\<close>

fun digit_char :: "nat \<Rightarrow> char" where
  "digit_char d =
     (if d = 0 then CHR ''0'' else if d = 1 then CHR ''1'' else if d = 2 then CHR ''2''
      else if d = 3 then CHR ''3'' else if d = 4 then CHR ''4'' else if d = 5 then CHR ''5''
      else if d = 6 then CHR ''6'' else if d = 7 then CHR ''7'' else if d = 8 then CHR ''8''
      else CHR ''9'')"

function show_nat :: "nat \<Rightarrow> string" where
  "show_nat n = (if n < 10 then [digit_char n] else show_nat (n div 10) @ [digit_char (n mod 10)])"
  by pat_completeness auto
termination
  by (relation "measure id") auto

definition two_digits :: "nat \<Rightarrow> string" where
  "two_digits n = [digit_char (n div 10 mod 10), digit_char (n mod 10)]"

text \<open>
  \<^verbatim>\<open>(file.size / (1024 * 1024)).toFixed(2)\<close>. A file size is an integer below \<open>2^53\<close>
  and the divisor is \<open>2^20\<close>, so the quotient is exact in double precision; \<^verbatim>\<open>toFixed(2)\<close>
  takes the integer \<open>n\<close> with \<open>n / 100\<close> nearest to it, the larger one on a tie, and
  prints \<open>n\<close> with two decimals.
\<close>

definition hundredths_MB :: "nat \<Rightarrow> nat" where
  "hundredths_MB bytes = (200 * bytes + 1048576) div 2097152"

definition toFixed2_MB :: "nat \<Rightarrow> string" where
  "toFixed2_MB bytes =
     (let n = hundredths_MB bytes in show_nat (n div 100) @ ''.'' @ two_digits (n mod 100))"

text \<open>What the browser hands over as a \<^verbatim>\<open>File\<close>: its name and its size in bytes.\<close>

record File =
  file_name :: string
  file_size :: nat

text \<open>
  What the mock handler takes from its surroundings: the random id
  (\<^verbatim>\<open>Math.random().toString(36).substring(2, 9)\<close>), the date
  (\<^verbatim>\<open>new Date().toISOString().split("T")[0]\<close>) and the time
  (\<^verbatim>\<open>new Date().toLocaleTimeString()\<close>).
\<close>

record mock_env =
  random_id :: string
  today :: string
  time_now :: string

text \<open>
  The outcome of a mock call: the promise resolves with a reference (\<open>Inr\<close>) or rejects
  (\<open>Inl\<close>); the arguments of the calls of \<^verbatim>\<open>onProgress\<close> in order; the heap afterwards.
  A call is followed from its start to the settling of its promise with no other call
  of the module in between.
\<close>

record mock_outcome =
  settled :: "js_exn + nat"
  mock_calls :: "nat list"
  mock_heap :: heap

text \<open>
  The interval of \<^verbatim>\<open>mockUploadVideo\<close> and \<^verbatim>\<open>mockUploadYoutubeVideo\<close>: every 200 ms tick
  adds 5 to \<^verbatim>\<open>progress\<close> and reports it; the tick that reaches 100 clears the interval.
  The result lists \<^verbatim>\<open>progress\<close> after each tick.
\<close>

function upload_interval :: "nat \<Rightarrow> nat list" where
  "upload_interval progress =
     (let progress' = progress + 5
      in if progress' \<ge> 100 then [progress'] else progress' # upload_interval progress')"
  by pat_completeness auto
termination
  by (relation "measure (\<lambda>p. 100 - p)") auto

text \<open>The interval of \<^verbatim>\<open>mockProcessVideo\<close>: 10 per 300 ms tick.\<close>

function process_interval :: "nat \<Rightarrow> nat list" where
  "process_interval progress =
     (let progress' = progress + 10
      in if progress' \<ge> 100 then [progress'] else progress' # process_interval progress')"
  by pat_completeness auto
termination
  by (relation "measure (\<lambda>p. 100 - p)") auto

definition mockUploadVideo :: "File \<Rightarrow> bool \<Rightarrow> mock_env \<Rightarrow> heap \<Rightarrow> mock_outcome" where
  "mockUploadVideo f onProgress env h =
     (let ticks = upload_interval 0;
          videoData = \<lparr>video_id = random_id env, name = file_name f, platform = ''Unknown'',
                       date = today env, status = Completed,
                       thumbnail = ''https://images.unsplash.com/photo-1611162616475-46b635cb6868?w=120&q=80'',
                       duration = ''1:30'',
                       size_text = toFixed2_MB (file_size f) @ '' MB'', url = None\<rparr>;
          (r, h1) = alloc_object h videoData;
          h2 = unshift h1 mockVideos r
      in \<lparr>settled = Inr r, mock_calls = (if onProgress then ticks else []), mock_heap = h2\<rparr>)"

text \<open>
  \<^verbatim>\<open>resolve([...mockVideos])\<close>: a new array with the same element references, made
  from the list as it is when the timer fires (the heap given here).
\<close>

definition mockGetUserVideos :: "heap \<Rightarrow> mock_outcome" where
  "mockGetUserVideos h =
     (let (r, h1) = alloc_array h (array_at h mockVideos)
      in \<lparr>settled = Inr r, mock_calls = [], mock_heap = h1\<rparr>)"

text \<open>
  \<^verbatim>\<open>mockProcessVideo\<close>; of \<^verbatim>\<open>settings\<close> it reads \<^verbatim>\<open>settings.platform\<close>, a string. The
  \<^verbatim>\<open>throw\<close> happens inside the promise's executor, so the promise is rejected.
\<close>

definition mockProcessVideo :: "string \<Rightarrow> string \<Rightarrow> bool \<Rightarrow> heap \<Rightarrow> mock_outcome" where
  "mockProcessVideo videoId settings_platform onProgress h =
     (case List.find (\<lambda>(r, v). video_id v = videoId) (video_list h) of
        None \<Rightarrow> \<lparr>settled = Inl (JsError ''Video not found''), mock_calls = [], mock_heap = h\<rparr>
      | Some (r, video) \<Rightarrow>
          (let video1 = video\<lparr>status := Processing,
                              platform := (if settings_platform \<noteq> [] then settings_platform
                                           else ''YouTube'')\<rparr>;
               h1 = h\<lparr>objects := (objects h)(r \<mapsto> video1)\<rparr>;
               ticks = process_interval 0;
               video2 = video1\<lparr>status := Completed\<rparr>;
               h2 = h1\<lparr>objects := (objects h1)(r \<mapsto> video2)\<rparr>;
               (c, h3) = alloc_object h2 video2
           in \<lparr>settled = Inr c, mock_calls = (if onProgress then ticks else []),
               mock_heap = h3\<rparr>))"

definition mockUploadYoutubeVideo :: "string \<Rightarrow> bool \<Rightarrow> mock_env \<Rightarrow> heap \<Rightarrow> mock_outcome" where
  "mockUploadYoutubeVideo youtubeUrl onProgress env h =
     (case getYoutubeVideoId youtubeUrl of
        Inl e \<Rightarrow> \<lparr>settled = Inl e, mock_calls = [], mock_heap = h\<rparr>
      | Inr None \<Rightarrow>
          \<lparr>settled = Inl (JsError ''Invalid YouTube URL''), mock_calls = [], mock_heap = h\<rparr>
      | Inr (Some videoId) \<Rightarrow>
          (let ticks = upload_interval 0;
               videoData = \<lparr>video_id = ''yt-'' @ videoId,
                            name = ''YouTube Import - '' @ time_now env,
                            platform = ''YouTube'', date = today env, status = Completed,
                            thumbnail = ''https://img.youtube.com/vi/'' @ videoId @ ''/mqdefault.jpg'',
                            duration = ''3:45'', size_text = ''32.7 MB'',
                            url = Some (''https://www.youtube.com/watch?v='' @ videoId)\<rparr>;
               (r, h1) = alloc_object h videoData;
               h2 = unshift h1 mockVideos r
           in \<lparr>settled = Inr r, mock_calls = (if onProgress then ticks else []),
               mock_heap = h2\<rparr>))"

text \<open>
  What a caller can do to an array it holds: add, remove and reorder elements. Each is
  a write to that array's own cell of the heap.
\<close>

datatype array_op = Push nat | Unshift nat | Pop | Shift | RemoveAt nat | Reverse | Swap nat nat

fun apply_array_op :: "array_op \<Rightarrow> nat list \<Rightarrow> nat list" where
  "apply_array_op (Push x) xs = xs @ [x]"
| "apply_array_op (Unshift x) xs = x # xs"
| "apply_array_op Pop xs = butlast xs"
| "apply_array_op Shift xs = tl xs"
| "apply_array_op (RemoveAt i) xs = take i xs @ drop (Suc i) xs"
| "apply_array_op Reverse xs = rev xs"
| "apply_array_op (Swap i j) xs =
     (if i < length xs \<and> j < length xs then xs[i := xs ! j, j := xs ! i] else xs)"

definition mutate_array :: "nat \<Rightarrow> array_op \<Rightarrow> heap \<Rightarrow> heap" where
  "mutate_array a op' h = h\<lparr>arrays := (arrays h)(a \<mapsto> apply_array_op op' (array_at h a))\<rparr>"


section \<open>The API client: submitting a job and polling it\<close>

text \<open>
  \<^verbatim>\<open>await fetch(...)\<close> either throws (the transport failed) or yields a response. The
  requests are named by their endpoint; the job id in a path is whatever the server
  sent as \<^verbatim>\<open>jobId\<close>. Request bodies and the authorisation header do not influence
  the client's control flow and are left out.
\<close>

datatype fetch_result = Threw js_exn | Resp response

datatype endpoint =
    PostProcess string
  | PostGenerateClips string
  | PostYoutubeDownload string string
  | GetJobProgress jsval
  | GetJobResult jsval
  | GetVideo string
  | GetClips string

text \<open>\<^verbatim>\<open>{ error: error instanceof Error ? error.message : fallback }\<close>.\<close>

definition caught :: "string \<Rightarrow> js_exn \<Rightarrow> envelope" where
  "caught fallback e = error_envelope (JStr (case e of JsError m \<Rightarrow> m | NonError \<Rightarrow> fallback))"

text \<open>
  A submitting operation's outcome: the value its promise resolves with, the arguments
  of the calls of \<^verbatim>\<open>onProgress\<close> made before it returns, the job whose polling
  interval it started (\<open>None\<close>: \<^verbatim>\<open>setInterval\<close> was not called) and the requests it
  made.
\<close>

record op_outcome =
  returned :: envelope
  calls :: "jsval list"
  polling :: "jsval option"
  requested :: "endpoint list"

definition processing_placeholder :: "jsval \<Rightarrow> envelope" where
  "processing_placeholder ident =
     data_envelope (JObj [(''id'', ident), (''status'', JStr ''processing'')])"

definition processVideo :: "string \<Rightarrow> bool \<Rightarrow> fetch_result \<Rightarrow> op_outcome" where
  "processVideo videoId onProgress submit =
     (let stop = (\<lambda>env. \<lparr>returned = env, calls = [], polling = None,
                          requested = [PostProcess videoId]\<rparr>)
      in case submit of
           Threw e \<Rightarrow> stop (caught ''Processing failed'' e)
         | Resp response \<Rightarrow>
             (case handleResponse response of
                Inl e \<Rightarrow> stop (caught ''Processing failed'' e)
              | Inr result \<Rightarrow>
                  if truthy (read_error result) \<or> \<not> truthy (read_data result) then stop result
                  else
                    (case getProp (read_data result) ''jobId'' of
                       Inl e \<Rightarrow> stop (caught ''Processing failed'' e)
                     | Inr jobId \<Rightarrow>
                         if onProgress then
                           \<lparr>returned = processing_placeholder (JStr videoId), calls = [],
                            polling = Some jobId, requested = [PostProcess videoId]\<rparr>
                         else stop (processing_placeholder (JStr videoId)))))"

definition generateClips :: "string \<Rightarrow> bool \<Rightarrow> fetch_result \<Rightarrow> op_outcome" where
  "generateClips videoId onProgress submit =
     (let stop = (\<lambda>env. \<lparr>returned = env, calls = [], polling = None,
                          requested = [PostGenerateClips videoId]\<rparr>)
      in case submit of
           Threw e \<Rightarrow> stop (caught ''Clip generation failed'' e)
         | Resp response \<Rightarrow>
             (case handleResponse response of
                Inl e \<Rightarrow> stop (caught ''Clip generation failed'' e)
              | Inr result \<Rightarrow>
                  if truthy (read_error result) \<or> \<not> truthy (read_data result) then stop result
                  else
                    (case getProp (read_data result) ''jobId'' of
                       Inl e \<Rightarrow> stop (caught ''Clip generation failed'' e)
                     | Inr jobId \<Rightarrow>
                         if onProgress then
                           \<lparr>returned = data_envelope (JArr []), calls = [],
                            polling = Some jobId, requested = [PostGenerateClips videoId]\<rparr>
                         else stop (data_envelope (JArr [])))))"

text \<open>
  \<^verbatim>\<open>uploadYoutubeVideo\<close> also carries the mock module's heap, since any exception in its
  inner \<^verbatim>\<open>try\<close> block hands the call to \<^verbatim>\<open>mockUploadYoutubeVideo\<close>. \<open>submit\<close> is the
  outcome of the download request, \<open>result\<close> that of the request for the job's
  result, made only on the path without a callback.
\<close>

record yt_outcome = op_outcome +
  heap_after :: heap

definition mock_fallback ::
  "string \<Rightarrow> bool \<Rightarrow> jsval list \<Rightarrow> endpoint list \<Rightarrow> mock_env \<Rightarrow> heap \<Rightarrow> yt_outcome" where
  "mock_fallback youtubeUrl onProgress made reqs env h =
     (let m = mockUploadYoutubeVideo youtubeUrl onProgress env h
      in \<lparr>returned =
            (case settled m of
               Inr mockData \<Rightarrow> data_envelope (JRef mockData)
             | Inl mockError \<Rightarrow> caught ''Failed to download YouTube video'' mockError),
          calls = made @ map (\<lambda>p. JNum (int p)) (mock_calls m),
          polling = None, requested = reqs, heap_after = mock_heap m\<rparr>)"

definition uploadYoutubeVideo ::
  "string \<Rightarrow> bool \<Rightarrow> string \<Rightarrow> fetch_result \<Rightarrow> fetch_result \<Rightarrow> mock_env \<Rightarrow> heap \<Rightarrow> yt_outcome" where
  "uploadYoutubeVideo youtubeUrl onProgress quality submit result env h =
     (let started = (if onProgress then [JNum 5] else []);
          download = PostYoutubeDownload youtubeUrl quality
      in case submit of
           Threw fetchError \<Rightarrow> mock_fallback youtubeUrl onProgress started [download] env h
         | Resp response \<Rightarrow>
             (case handleResponse response of
                Inl fetchError \<Rightarrow> mock_fallback youtubeUrl onProgress started [download] env h
              | Inr initialResult \<Rightarrow>
                  if truthy (read_error initialResult) \<or> \<not> truthy (read_data initialResult) then
                    \<lparr>returned = initialResult, calls = started, polling = None,
                     requested = [download], heap_after = h\<rparr>
                  else
                    (case getProp (read_data initialResult) ''jobId'' of
                       Inl fetchError \<Rightarrow>
                         mock_fallback youtubeUrl onProgress started [download] env h
                     | Inr jobId \<Rightarrow>
                         if onProgress then
                           \<lparr>returned = processing_placeholder jobId,
                            calls = started @ [JNum 10], polling = Some jobId,
                            requested = [download], heap_after = h\<rparr>
                         else
                           (case result of
                              Threw fetchError \<Rightarrow>
                                mock_fallback youtubeUrl onProgress started
                                  [download, GetJobResult jobId] env h
                            | Resp videoResponse \<Rightarrow>
                                (case handleResponse videoResponse of
                                   Inl fetchError \<Rightarrow>
                                     mock_fallback youtubeUrl onProgress started
                                       [download, GetJobResult jobId] env h
                                 | Inr video \<Rightarrow>
                                     \<lparr>returned = video, calls = started, polling = None,
                                      requested = [download, GetJobResult jobId],
                                      heap_after = h\<rparr>)))))"

subsection \<open>The polling interval\<close>

text \<open>
  One firing of the callback given to \<^verbatim>\<open>setInterval\<close>. Its input is what the network
  answers to the progress request and, should the callback go on to ask for the final
  result, to that request. Its effect: the arguments of its calls of \<^verbatim>\<open>onProgress\<close>,
  whether it called \<^verbatim>\<open>clearInterval\<close>, the value its own \<^verbatim>\<open>return\<close> statement gave
  (\<open>None\<close> when it ran to the end without one), what it passed to \<^verbatim>\<open>console.error\<close>,
  and the requests it made.

  The three callbacks of the source differ in two places only, which are parameters
  here: whether the final result is first looked for in the poll response itself
  (\<^verbatim>\<open>videoData\<close>, in \<^verbatim>\<open>uploadYoutubeVideo\<close> only) and the resource asked for the final
  result.
\<close>

record tick_input =
  progress_fetch :: fetch_result
  result_fetch :: fetch_result

record tick_effect =
  tick_calls :: "jsval list"
  cleared :: bool
  tick_value :: "envelope option"
  logged :: "js_exn option"
  fetched :: "endpoint list"

definition poll_tick :: "bool \<Rightarrow> endpoint \<Rightarrow> jsval \<Rightarrow> tick_input \<Rightarrow> tick_effect" where
  "poll_tick inline result_at jobId inp =
     (let fails = (\<lambda>made clr reqs e. \<lparr>tick_calls = made, cleared = clr, tick_value = None,
                                       logged = Some e, fetched = reqs\<rparr>);
          poll = GetJobProgress jobId
      in case progress_fetch inp of
           Threw e \<Rightarrow> fails [] False [poll] e
         | Resp progressResponse \<Rightarrow>
             (case handleResponse progressResponse of
                Inl e \<Rightarrow> fails [] False [poll] e
              | Inr progressResult \<Rightarrow>
                  if truthy (read_data progressResult) then
                    (case getProp (read_data progressResult) ''progress'' of
                       Inl e \<Rightarrow> fails [] False [poll] e
                     | Inr p \<Rightarrow>
                         (case getProp (read_data progressResult) ''completed'' of
                            Inl e \<Rightarrow> fails [p] False [poll] e
                          | Inr c \<Rightarrow>
                              if truthy c then
                                (case (if inline
                                       then getProp (read_data progressResult) ''videoData''
                                       else Inr JUndefined) of
                                   Inl e \<Rightarrow> fails [p] True [poll] e
                                 | Inr videoData \<Rightarrow>
                                     if truthy videoData then
                                       \<lparr>tick_calls = [p], cleared = True,
                                        tick_value = Some (data_envelope videoData),
                                        logged = None, fetched = [poll]\<rparr>
                                     else
                                       (case result_fetch inp of
                                          Threw e \<Rightarrow> fails [p] True [poll, result_at] e
                                        | Resp videoResponse \<Rightarrow>
                                            (case handleResponse videoResponse of
                                               Inl e \<Rightarrow> fails [p] True [poll, result_at] e
                                             | Inr final \<Rightarrow>
                                                 \<lparr>tick_calls = [p], cleared = True,
                                                  tick_value = Some final, logged = None,
                                                  fetched = [poll, result_at]\<rparr>)))
                              else
                                \<lparr>tick_calls = [p], cleared = False, tick_value = None,
                                 logged = None, fetched = [poll]\<rparr>))
                  else
                    \<lparr>tick_calls = [], cleared = False, tick_value = None, logged = None,
                     fetched = [poll]\<rparr>))"

definition processVideo_tick :: "string \<Rightarrow> jsval \<Rightarrow> tick_input \<Rightarrow> tick_effect" where
  "processVideo_tick videoId jobId = poll_tick False (GetVideo videoId) jobId"

definition generateClips_tick :: "string \<Rightarrow> jsval \<Rightarrow> tick_input \<Rightarrow> tick_effect" where
  "generateClips_tick videoId jobId = poll_tick False (GetClips videoId) jobId"

definition uploadYoutubeVideo_tick :: "jsval \<Rightarrow> tick_input \<Rightarrow> tick_effect" where
  "uploadYoutubeVideo_tick jobId = poll_tick True (GetJobResult jobId) jobId"

text \<open>
  The interval fires once per second until a firing clears it. Given what the network
  answers at each firing, \<open>run_interval\<close> lists the effects of the firings that happen;
  each firing is taken to finish before the next one starts.
\<close>

fun run_interval :: "(tick_input \<Rightarrow> tick_effect) \<Rightarrow> tick_input list \<Rightarrow> tick_effect list" where
  "run_interval tick [] = []"
| "run_interval tick (inp # inps) =
     (let eff = tick inp in eff # (if cleared eff then [] else run_interval tick inps))"

text \<open>The arguments of all calls of \<^verbatim>\<open>onProgress\<close> made by a run of the interval.\<close>

definition observed :: "tick_effect list \<Rightarrow> jsval list" where
  "observed effs = concat (map tick_calls effs)"

text \<open>The interval is still set after the firings listed.\<close>

definition still_polling :: "tick_effect list \<Rightarrow> bool" where
  "still_polling effs = list_all (\<lambda>eff. \<not> cleared eff) effs"

text \<open>
  A server response with status 200 and a JSON body; its text, which \<^verbatim>\<open>handleResponse\<close>
  does not read for such a response, is left empty.
\<close>

definition json_ok :: "jsval \<Rightarrow> response" where
  "json_ok body =
     \<lparr>ok = True, contentType = Some ''application/json'', body_json = Inr body,
      body_text = Inr []\<rparr>"

text \<open>
  A poll answered with \<^verbatim>\<open>{progress, completed}\<close>; no result request is answered
  (the transport fails should the callback make one).
\<close>

definition progress_poll :: "int \<Rightarrow> bool \<Rightarrow> tick_input" where
  "progress_poll p c =
     \<lparr>progress_fetch = Resp (json_ok (JObj [(''progress'', JNum p), (''completed'', JBool c)])),
      result_fetch = Threw (JsError ''Failed to fetch'')\<rparr>"

section \<open>The upload component's validation\<close>

text \<open>\<^verbatim>\<open>s.split(".")\<close>: the pieces between the separators, never an empty array.\<close>

fun split_on :: "char \<Rightarrow> string \<Rightarrow> string list" where
  "split_on sep [] = [[]]"
| "split_on sep (c # cs) =
     (if c = sep then [] # split_on sep cs
      else (case split_on sep cs of [] \<Rightarrow> [[c]] | w # ws \<Rightarrow> (c # w) # ws))"

text \<open>
  \<^verbatim>\<open>toLowerCase()\<close> on 8-bit characters: the letters A to Z and the capital letters of
  Latin-1 (0xC0 to 0xDE without the multiplication sign 0xD7) move up by 32.
\<close>

definition lower_char :: "char \<Rightarrow> char" where
  "lower_char c =
     (let n = (of_char c :: nat)
      in if (65 \<le> n \<and> n \<le> 90) \<or> (192 \<le> n \<and> n \<le> 222 \<and> n \<noteq> 215) then char_of (n + 32) else c)"

definition toLowerCase :: "string \<Rightarrow> string" where
  "toLowerCase s = map lower_char s"

text \<open>\<^verbatim>\<open>xs.join(sep)\<close>.\<close>

fun join :: "string \<Rightarrow> string list \<Rightarrow> string" where
  "join sep [] = []"
| "join sep [x] = x"
| "join sep (x # y # ys) = x @ sep @ join sep (y # ys)"

text \<open>
  \<^verbatim>\<open>`.${file.name.split(".").pop()?.toLowerCase()}`\<close>; \<^verbatim>\<open>pop\<close> on an empty array would
  give \<^verbatim>\<open>undefined\<close>, printed as such by the template.
\<close>

definition extension_of :: "string \<Rightarrow> string" where
  "extension_of nm =
     ''.'' @ (case split_on (CHR ''.'') nm of [] \<Rightarrow> ''undefined'' | ws \<Rightarrow> toLowerCase (last ws))"

definition unsupported_message :: "string list \<Rightarrow> string \<Rightarrow> string" where
  "unsupported_message supportedFormats extension =
     ''Unsupported file format: '' @ extension @ ''. Please use: '' @ join '', '' supportedFormats"

definition too_large_message :: "nat \<Rightarrow> string \<Rightarrow> string" where
  "too_large_message maxFileSize nm =
     ''File too large: '' @ nm @ ''. Maximum size is '' @ show_nat maxFileSize @ ''MB''"

text \<open>
  The loop of \<^verbatim>\<open>validateFiles\<close>: the files kept, and the arguments of the calls of
  \<^verbatim>\<open>setError\<close> in order (\<open>None\<close> is \<^verbatim>\<open>null\<close>). \<open>maxFileSize\<close> is a whole number of
  megabytes.
\<close>

fun validate_loop :: "string list \<Rightarrow> nat \<Rightarrow> File list \<Rightarrow> File list \<times> string option list" where
  "validate_loop supportedFormats maxFileSize [] = ([], [])"
| "validate_loop supportedFormats maxFileSize (f # fs) =
     (let (validFiles, errs) = validate_loop supportedFormats maxFileSize fs;
          extension = extension_of (file_name f)
      in if extension \<notin> set supportedFormats then
           (validFiles, Some (unsupported_message supportedFormats extension) # errs)
         else if file_size f > maxFileSize * 1024 * 1024 then
           (validFiles, Some (too_large_message maxFileSize (file_name f)) # errs)
         else (f # validFiles, errs))"

definition validateFiles :: "string list \<Rightarrow> nat \<Rightarrow> File list \<Rightarrow> File list \<times> string option list" where
  "validateFiles supportedFormats maxFileSize fileList =
     (let (validFiles, errs) = validate_loop supportedFormats maxFileSize fileList
      in (validFiles, None # errs))"

text \<open>
  \<^verbatim>\<open>handleFileInputChange\<close> and \<^verbatim>\<open>handleDrop\<close>: validate, and when a file is left call
  \<^verbatim>\<open>handleUpload\<close>, which gives the first valid file to \<^verbatim>\<open>uploadVideo\<close>, the only
  place where the component reaches the network with a file. The result is that file
  (\<open>None\<close>: no upload is started) and the error the component shows at that point
  (\<^verbatim>\<open>handleUpload\<close> resets it before it calls \<^verbatim>\<open>uploadVideo\<close>).
\<close>

definition handleFileInputChange ::
  "string list \<Rightarrow> nat \<Rightarrow> File list \<Rightarrow> File option \<times> string option" where
  "handleFileInputChange supportedFormats maxFileSize fileList =
     (if fileList = [] then (None, None)
      else
        (let (validFiles, errs) = validateFiles supportedFormats maxFileSize fileList
         in case validFiles of
              [] \<Rightarrow> (None, last errs)
            | f # fs \<Rightarrow> (Some f, None)))"

definition default_formats :: "string list" where
  "default_formats = [''.mp4'', ''.mov'', ''.avi'', ''.mkv'', ''.webm'']"

section \<open>Vocabulary of the properties, and sample inputs\<close>

text \<open>The double quote, for writing JSON texts.\<close>

definition dq :: char where
  "dq = CHR 0x22"

text \<open>
  A 404 whose JSON body carries a message; one whose message is empty; one whose body
  is \<^verbatim>\<open>null\<close>; a 200 announced as JSON whose body is a gateway's HTML page.
\<close>

definition not_found_response :: response where
  "not_found_response =
     \<lparr>ok = False, contentType = Some ''application/json; charset=utf-8'',
      body_json = Inr (JObj [(''message'', JStr ''Video not found'')]),
      body_text = Inr (''{'' @ [dq] @ ''message'' @ [dq] @ '':'' @ [dq] @ ''Video not found'' @ [dq] @ ''}'')\<rparr>"

definition empty_message_response :: response where
  "empty_message_response =
     \<lparr>ok = False, contentType = Some ''application/json'',
      body_json = Inr (JObj [(''message'', JStr '''')]),
      body_text = Inr (''{'' @ [dq] @ ''message'' @ [dq] @ '':'' @ [dq, dq] @ ''}'')\<rparr>"

definition null_body_response :: response where
  "null_body_response =
     \<lparr>ok = False, contentType = Some ''application/json'', body_json = Inr JNull,
      body_text = Inr ''null''\<rparr>"

definition unparsable_response :: response where
  "unparsable_response =
     \<lparr>ok = True, contentType = Some ''application/json'',
      body_json = Inl (JsError ''Unexpected token < in JSON at position 0''),
      body_text = Inr ''<html>Bad gateway</html>''\<rparr>"

definition failed_fetch :: fetch_result where
  "failed_fetch = Threw (JsError ''Failed to fetch'')"

text \<open>
  A poll request fails when its transport throws or its response cannot be handled
  (the body announced as JSON does not parse).
\<close>

definition poll_fails :: "tick_input \<Rightarrow> bool" where
  "poll_fails inp =
     (case progress_fetch inp of Threw e \<Rightarrow> True | Resp r \<Rightarrow> isl (handleResponse r))"

definition failing_polls :: "tick_input list" where
  "failing_polls =
     [\<lparr>progress_fetch = failed_fetch, result_fetch = failed_fetch\<rparr>,
      \<lparr>progress_fetch = Resp unparsable_response, result_fetch = failed_fetch\<rparr>]"

text \<open>
  What a firing reads from a poll it could handle: the \<^verbatim>\<open>progress\<close>, \<^verbatim>\<open>completed\<close> and
  \<^verbatim>\<open>videoData\<close> members of the response's data (\<open>None\<close>: the poll failed or carried
  no data).
\<close>

definition poll_answer :: "tick_input \<Rightarrow> (jsval \<times> jsval \<times> jsval) option" where
  "poll_answer inp =
     (case progress_fetch inp of
        Threw e \<Rightarrow> None
      | Resp r \<Rightarrow>
          (case handleResponse r of
             Inl e \<Rightarrow> None
           | Inr res \<Rightarrow>
               if truthy (read_data res) then
                 (case (getProp (read_data res) ''progress'', getProp (read_data res) ''completed'',
                        getProp (read_data res) ''videoData'') of
                    (Inr p, Inr c, Inr v) \<Rightarrow> Some (p, c, v)
                  | _ \<Rightarrow> None)
               else None))"


text \<open>
  The job a submission was accepted with: the \<^verbatim>\<open>jobId\<close> of a submit response whose
  envelope carries data and no error.
\<close>

definition accepted_job :: "fetch_result \<Rightarrow> jsval option" where
  "accepted_job submit =
     (case submit of
        Threw e \<Rightarrow> None
      | Resp r \<Rightarrow>
          (case handleResponse r of
             Inl e \<Rightarrow> None
           | Inr res \<Rightarrow>
               if truthy (read_error res) \<or> \<not> truthy (read_data res) then None
               else (case getProp (read_data res) ''jobId'' of Inl e \<Rightarrow> None | Inr j \<Rightarrow> Some j)))"

text \<open>
  A submission accepted as job \<^verbatim>\<open>job-1\<close>; the finished video; the answer of the job's
  result resource; a poll that reports completion with the video inline; one that
  reports completion without it while the result resource answers.
\<close>

definition job_accepted :: fetch_result where
  "job_accepted = Resp (json_ok (JObj [(''jobId'', JStr ''job-1'')]))"

definition finished_video :: jsval where
  "finished_video = JObj [(''id'', JStr ''v9''), (''status'', JStr ''completed'')]"

definition result_ready :: fetch_result where
  "result_ready = Resp (json_ok finished_video)"

definition completed_inline :: tick_input where
  "completed_inline =
     \<lparr>progress_fetch = Resp (json_ok (JObj [(''progress'', JNum 100), (''completed'', JBool True),
                                             (''videoData'', finished_video)])),
      result_fetch = failed_fetch\<rparr>"

definition completed_plain :: tick_input where
  "completed_plain =
     \<lparr>progress_fetch = Resp (json_ok (JObj [(''progress'', JNum 100), (''completed'', JBool True)])),
      result_fetch = result_ready\<rparr>"

definition env0 :: mock_env where
  "env0 = \<lparr>random_id = ''k3j9x2a'', today = ''2024-05-01'', time_now = ''10:15:00 AM''\<rparr>"



text \<open>What a caller might do to the array it was given.\<close>

definition caller_edits :: "array_op list" where
  "caller_edits = [Push 1, Shift, Reverse, RemoveAt 0, Swap 0 1, Unshift 3, Pop]"

text \<open>
  Why \<^verbatim>\<open>validateFiles\<close> skips a file, as the message it passes to \<^verbatim>\<open>setError\<close>; \<open>None\<close>
  for a file it keeps. The format is checked before the size.
\<close>

definition rejected :: "string list \<Rightarrow> nat \<Rightarrow> File \<Rightarrow> string option" where
  "rejected supportedFormats maxFileSize f =
     (if extension_of (file_name f) \<notin> set supportedFormats
      then Some (unsupported_message supportedFormats (extension_of (file_name f)))
      else if file_size f > maxFileSize * 1024 * 1024
      then Some (too_large_message maxFileSize (file_name f))
      else None)"

text \<open>An address that is no YouTube address; three files.\<close>

definition vimeo_url :: string where
  "vimeo_url = ''https://vimeo.com/12345''"

definition big_exe :: File where
  "big_exe = \<lparr>file_name = ''big.exe'', file_size = 600 * 1024 * 1024\<rparr>"

definition holiday_mp4 :: File where
  "holiday_mp4 = \<lparr>file_name = ''holiday.mp4'', file_size = 600 * 1024 * 1024\<rparr>"

definition small_mov :: File where
  "small_mov = \<lparr>file_name = ''intro.mov'', file_size = 2 * 1024 * 1024\<rparr>"

text \<open>A 500 whose body is plain text.\<close>

definition plain_error_response :: response where
  "plain_error_response =
     \<lparr>ok = False, contentType = Some ''text/plain'',
      body_json = Inl (JsError ''Unexpected token I in JSON at position 0''),
      body_text = Inr ''Internal Server Error''\<rparr>"

text \<open>Every match of the pattern has made capture \<open>k\<close>.\<close>

definition sets_group :: "nat \<Rightarrow> regex \<Rightarrow> bool" where
  "sets_group k r =
     (\<forall>st j s' caps'. (j, s', caps') \<in> set (rmatch r st) \<longrightarrow> k \<in> fst ` set caps')"

section \<open>Properties\<close>

subsection \<open>Shared lemmas\<close>

lemma getProp_Inl_iff:
  "(getProp d k = Inl x) = ((d = JNull \<or> d = JUndefined) \<and> x = TypeError_nullish)"
  by (cases d) auto

lemma getProp_truthy: "truthy d \<Longrightarrow> \<exists>v. getProp d k = Inr v"
  by (cases d) auto

lemma poll_tick_fails:
  "poll_fails inp \<Longrightarrow>
     \<exists>e. poll_tick inline result_at jobId inp =
       \<lparr>tick_calls = [], cleared = False, tick_value = None, logged = Some e,
        fetched = [GetJobProgress jobId]\<rparr>"
  by (auto simp: poll_fails_def poll_tick_def Let_def split: fetch_result.splits sum.splits)

lemma run_interval_uncleared:
  "list_all (\<lambda>inp. \<not> cleared (tick inp)) pre \<Longrightarrow>
     run_interval tick (pre @ rest) = map tick pre @ run_interval tick rest"
  by (induction pre) (auto simp: Let_def)


lemma poll_tick_answer:
  "poll_answer inp = Some (p, c, v) \<Longrightarrow>
     tick_calls (poll_tick inline result_at jobId inp) = [p] \<and>
     cleared (poll_tick inline result_at jobId inp) = truthy c"
  by (auto simp: poll_answer_def poll_tick_def Let_def
      split: fetch_result.splits sum.splits if_splits)



lemma accepted_processVideo:
  "accepted_job submit = Some jobId \<Longrightarrow>
     processVideo videoId onProgress submit =
       \<lparr>returned = processing_placeholder (JStr videoId), calls = [],
        polling = (if onProgress then Some jobId else None), requested = [PostProcess videoId]\<rparr>"
  by (auto simp: accepted_job_def processVideo_def Let_def
      split: fetch_result.splits sum.splits if_splits)

lemma accepted_generateClips:
  "accepted_job submit = Some jobId \<Longrightarrow>
     generateClips videoId onProgress submit =
       \<lparr>returned = data_envelope (JArr []), calls = [],
        polling = (if onProgress then Some jobId else None), requested = [PostGenerateClips videoId]\<rparr>"
  by (auto simp: accepted_job_def generateClips_def Let_def
      split: fetch_result.splits sum.splits if_splits)

lemma polling_processVideo:
  "polling (processVideo videoId onProgress submit) = Some jobId \<Longrightarrow>
     onProgress \<and> accepted_job submit = Some jobId"
  by (auto simp: accepted_job_def processVideo_def Let_def
      split: fetch_result.splits sum.splits if_splits)

lemma polling_generateClips:
  "polling (generateClips videoId onProgress submit) = Some jobId \<Longrightarrow>
     onProgress \<and> accepted_job submit = Some jobId"
  by (auto simp: accepted_job_def generateClips_def Let_def
      split: fetch_result.splits sum.splits if_splits)

lemma polling_mock_fallback: "polling (mock_fallback u cb made reqs env h) = None"
  by (simp add: mock_fallback_def Let_def)

lemma polling_uploadYoutubeVideo:
  "polling (uploadYoutubeVideo u onProgress q submit result env h) = Some jobId \<Longrightarrow>
     onProgress \<and> accepted_job submit = Some jobId"
  by (auto simp: accepted_job_def uploadYoutubeVideo_def Let_def polling_mock_fallback
      split: fetch_result.splits sum.splits if_splits)

lemma accepted_uploadYoutubeVideo_callback:
  "accepted_job submit = Some jobId \<Longrightarrow>
     uploadYoutubeVideo u True q submit result env h =
       \<lparr>returned = processing_placeholder jobId, calls = [JNum 5, JNum 10],
        polling = Some jobId, requested = [PostYoutubeDownload u q], heap_after = h\<rparr>"
  by (auto simp: accepted_job_def uploadYoutubeVideo_def Let_def
      split: fetch_result.splits sum.splits if_splits)

lemma accepted_uploadYoutubeVideo_waits:
  "accepted_job submit = Some jobId \<Longrightarrow> handleResponse videoResponse = Inr video \<Longrightarrow>
     uploadYoutubeVideo u False q submit (Resp videoResponse) env h =
       \<lparr>returned = video, calls = [], polling = None,
        requested = [PostYoutubeDownload u q, GetJobResult jobId], heap_after = h\<rparr>"
  by (auto simp: accepted_job_def uploadYoutubeVideo_def Let_def
      split: fetch_result.splits sum.splits if_splits)

lemma calls_mock_fallback_no_callback: "calls (mock_fallback u False [] reqs env h) = []"
  by (simp add: mock_fallback_def Let_def mockUploadYoutubeVideo_def split: sum.splits option.splits prod.splits)

lemma no_callback_uploadYoutubeVideo:
  "polling (uploadYoutubeVideo u False q submit result env h) = None \<and>
   calls (uploadYoutubeVideo u False q submit result env h) = []"
  by (auto simp: uploadYoutubeVideo_def Let_def polling_mock_fallback calls_mock_fallback_no_callback
      split: fetch_result.splits sum.splits if_splits)

lemma no_callback_processVideo:
  "polling (processVideo v False submit) = None \<and> calls (processVideo v False submit) = []"
  by (auto simp: processVideo_def Let_def split: fetch_result.splits sum.splits if_splits)

lemma no_callback_generateClips:
  "polling (generateClips v False submit) = None \<and> calls (generateClips v False submit) = []"
  by (auto simp: generateClips_def Let_def split: fetch_result.splits sum.splits if_splits)

lemma completed_tick_inline:
  "poll_answer inp = Some (p, c, v) \<Longrightarrow> truthy c \<Longrightarrow> truthy v \<Longrightarrow>
     poll_tick True result_at jobId inp =
       \<lparr>tick_calls = [p], cleared = True, tick_value = Some (data_envelope v), logged = None,
        fetched = [GetJobProgress jobId]\<rparr>"
  by (auto simp: poll_answer_def poll_tick_def Let_def
      split: fetch_result.splits sum.splits if_splits)

lemma completed_tick_fetch:
  "poll_answer inp = Some (p, c, v) \<Longrightarrow> truthy c \<Longrightarrow> inline \<longrightarrow> \<not> truthy v \<Longrightarrow>
   result_fetch inp = Resp videoResponse \<Longrightarrow> handleResponse videoResponse = Inr final \<Longrightarrow>
     poll_tick inline result_at jobId inp =
       \<lparr>tick_calls = [p], cleared = True, tick_value = Some final, logged = None,
        fetched = [GetJobProgress jobId, result_at]\<rparr>"
  by (auto simp: poll_answer_def poll_tick_def Let_def
      split: fetch_result.splits sum.splits if_splits)

lemma accepted_job_accepted: "accepted_job job_accepted = Some (JStr ''job-1'')"
  by (simp add: accepted_job_def job_accepted_def json_ok_def handleResponse_def isJson_def
      read_data_def read_error_def data_envelope_def)

lemma poll_answer_completed_inline:
  "poll_answer completed_inline = Some (JNum 100, JBool True, finished_video)"
  by (simp add: poll_answer_def completed_inline_def json_ok_def handleResponse_def isJson_def
      read_data_def data_envelope_def finished_video_def)

lemma poll_answer_completed_plain:
  "poll_answer completed_plain = Some (JNum 100, JBool True, JUndefined)"
  by (simp add: poll_answer_def completed_plain_def json_ok_def handleResponse_def isJson_def
      read_data_def data_envelope_def)

lemma handleResponse_json_ok: "handleResponse (json_ok d) = Inr (data_envelope d)"
  by (simp add: json_ok_def handleResponse_def isJson_def)




lemma video_ids_initial: "map (\<lambda>(r, v). video_id v) (video_list initial_heap) = [''1'', ''2'', ''3'']"
  by (simp add: video_list_def initial_heap_def array_at_def mockVideos_def map_filter_simps)

lemma fold_mutate_array_other:
  "a \<noteq> b \<Longrightarrow> arrays (fold (mutate_array a) ops h) b = arrays h b"
  by (induction ops arbitrary: h) (simp_all add: mutate_array_def)

lemma fold_mutate_array_objects:
  "objects (fold (mutate_array a) ops h) = objects h"
  by (induction ops arbitrary: h) (simp_all add: mutate_array_def)

text \<open>
  The seventh capture takes part in every match of the pattern, so reading its length
  never throws: an address either yields no video id or one of 11 characters.
\<close>

lemma rmatch_caps_extend:
  "(j, s', caps') \<in> set (rmatch r (i, s, caps)) \<Longrightarrow> \<exists>new. caps' = new @ caps"
proof (induction r arbitrary: i s caps j s' caps')
  case (Seq a b)
  then obtain i1 s1 c1 where m1: "(i1, s1, c1) \<in> set (rmatch a (i, s, caps))"
    and m2: "(j, s', caps') \<in> set (rmatch b (i1, s1, c1))"
    by auto
  from Seq.IH(1) [OF m1] obtain n1 where "c1 = n1 @ caps" by blast
  moreover from Seq.IH(2) [OF m2] obtain n2 where "caps' = n2 @ c1" by blast
  ultimately show ?case by simp
next
  case (Group k a)
  then obtain c where m: "(j, s', c) \<in> set (rmatch a (i, s, caps))"
    and c: "caps' = (k, take (j - i) s) # c"
    by auto
  from Group.IH [OF m] obtain n where "c = n @ caps" by blast
  with c show ?case by simp
qed (auto split: list.splits if_splits)

lemma sets_group_Group: "sets_group k (Group k a)"
  by (auto simp: sets_group_def)

lemma sets_group_Seq_right: "sets_group k b \<Longrightarrow> sets_group k (Seq a b)"
  by (auto simp: sets_group_def)

lemma sets_group_Seq_left: "sets_group k a \<Longrightarrow> sets_group k (Seq a b)"
proof -
  assume a: "sets_group k a"
  show "sets_group k (Seq a b)"
    unfolding sets_group_def
  proof (intro allI impI)
    fix st j s' caps'
    assume "(j, s', caps') \<in> set (rmatch (Seq a b) st)"
    then obtain i1 s1 c1 where m1: "(i1, s1, c1) \<in> set (rmatch a st)"
      and m2: "(j, s', caps') \<in> set (rmatch b (i1, s1, c1))"
      by auto
    from a m1 have "k \<in> fst ` set c1" unfolding sets_group_def by blast
    moreover from rmatch_caps_extend [OF m2] obtain n where "caps' = n @ c1" by blast
    ultimately show "k \<in> fst ` set caps'" by auto
  qed
qed

lemma youtubeRegExp_sets_7: "sets_group 7 youtubeRegExp"
  unfolding youtubeRegExp_def seqs_def
  by (simp del: rmatch.simps add: sets_group_Seq_right sets_group_Seq_left sets_group_Group)

lemma exec_from_sets_group:
  "sets_group k re \<Longrightarrow> exec_from re i s = Some caps \<Longrightarrow> k \<in> fst ` set caps"
proof (induction s arbitrary: i)
  case Nil
  then show ?case
    by (auto simp: sets_group_def split: list.splits) (metis list.set_intros(1))
next
  case (Cons c cs)
  then show ?case
    by (auto simp: sets_group_def split: list.splits) (metis list.set_intros(1))
qed

lemma getYoutubeVideoId_never_throws: "getYoutubeVideoId u \<noteq> Inl e"
proof -
  have "map_of caps 7 \<noteq> None" if "js_match youtubeRegExp u = Some caps" for caps
    using exec_from_sets_group [OF youtubeRegExp_sets_7, of 0 u caps] that
    by (simp add: js_match_def map_of_eq_None_iff)
  then show ?thesis
    by (auto simp: getYoutubeVideoId_def split: option.splits)
qed

lemma getYoutubeVideoId_cases:
  "getYoutubeVideoId u = Inr None \<or> (\<exists>v. getYoutubeVideoId u = Inr (Some v) \<and> length v = 11)"
proof (cases "getYoutubeVideoId u")
  case (Inl e)
  then show ?thesis using getYoutubeVideoId_never_throws by blast
next
  case (Inr x)
  then show ?thesis
    by (cases x) (auto simp: getYoutubeVideoId_def split: option.splits if_splits)
qed

lemma vimeo_no_id: "getYoutubeVideoId vimeo_url = Inr None"
  by (simp add: vimeo_url_def getYoutubeVideoId_def js_match_def youtubeRegExp_def seqs_def lit_def
      is_line_terminator_def is_word_char_def)

lemma validate_loop_eq:
  "validate_loop fm mx fs =
     (filter (\<lambda>f. rejected fm mx f = None) fs,
      List.map_filter (\<lambda>f. map_option Some (rejected fm mx f)) fs)"
  by (induction fs) (auto simp: rejected_def map_filter_simps Let_def split: prod.splits)

lemma map_filter_member:
  "x \<in> set xs \<Longrightarrow> g x = Some y \<Longrightarrow> y \<in> set (List.map_filter g xs)"
  by (force simp: List.map_filter_def)

lemma ext_big_exe: "extension_of (file_name big_exe) = ''.exe''"
  by (simp add: big_exe_def extension_of_def toLowerCase_def lower_char_def)

lemma ext_holiday: "extension_of (file_name holiday_mp4) = ''.mp4''"
  by (simp add: holiday_mp4_def extension_of_def toLowerCase_def lower_char_def)

lemma ext_small: "extension_of (file_name small_mov) = ''.mov''"
  by (simp add: small_mov_def extension_of_def toLowerCase_def lower_char_def)

text \<open>
  The module's array is allocated when the module is loaded, and no call of the mock
  handler gives a reference away twice: the next unused reference never decreases.
\<close>

lemma mockVideos_allocated_initially: "mockVideos < next_ref initial_heap"
  by (simp add: mockVideos_def initial_heap_def)

lemma next_ref_never_decreases:
  "next_ref h \<le> next_ref (mock_heap (mockUploadVideo f onProgress env h))"
  "next_ref h \<le> next_ref (mock_heap (mockGetUserVideos h))"
  "next_ref h \<le> next_ref (mock_heap (mockProcessVideo videoId settings_platform onProgress h))"
  "next_ref h \<le> next_ref (mock_heap (mockUploadYoutubeVideo youtubeUrl onProgress env h))"
  by (simp_all add: mockUploadVideo_def mockGetUserVideos_def mockProcessVideo_def
      mockUploadYoutubeVideo_def alloc_object_def alloc_array_def unshift_def Let_def
      split: option.splits sum.splits prod.splits
      del: upload_interval.simps process_interval.simps)

subsection \<open>The response envelope\<close>

text \<open>
  C4 (as amended). Whenever \<^verbatim>\<open>handleResponse\<close> returns, the envelope holds exactly one
  of \<^verbatim>\<open>data\<close> and \<^verbatim>\<open>error\<close>: \<^verbatim>\<open>data\<close> on an ok status, \<^verbatim>\<open>error\<close> otherwise. On
  a status that is not ok the error is the JSON body's \<^verbatim>\<open>message\<close> when that value is
  truthy, and the string "An error occurred" otherwise (a message that is absent or
  empty, or a body that is not JSON). It does not return but throws exactly when the
  body cannot be read (a body announced as JSON that does not parse), or is the JSON
  \<^verbatim>\<open>null\<close> on a status that is not ok.
\<close>

theorem handleResponse_envelope:
  "(handleResponse r = Inr e \<longrightarrow>
      (data e = None) = (error e \<noteq> None) \<and>
      (ok r \<longrightarrow> error e = None) \<and>
      (\<not> ok r \<longrightarrow> data e = None)) \<and>
   (\<not> ok r \<and> isJson r \<and> body_json r = Inr d \<and> getProp d ''message'' = Inr m \<longrightarrow>
      handleResponse r =
        Inr (error_envelope (if truthy m then m else JStr ''An error occurred''))) \<and>
   (\<not> ok r \<and> \<not> isJson r \<and> body_text r = Inr t \<longrightarrow>
      handleResponse r = Inr (error_envelope (JStr ''An error occurred''))) \<and>
   ((\<exists>x. handleResponse r = Inl x) =
      (if isJson r
       then isl (body_json r) \<or> (\<not> ok r \<and> body_json r \<in> {Inr JNull, Inr JUndefined})
       else isl (body_text r)))"
  by (cases "body_text r")
    (auto simp: handleResponse_def data_envelope_def error_envelope_def getProp_Inl_iff
      split: sum.splits if_splits)

theorem handleResponse_envelope_witness:
  "\<not> ok not_found_response \<and> isJson not_found_response \<and>
   handleResponse not_found_response = Inr (error_envelope (JStr ''Video not found'')) \<and>
   data (error_envelope (JStr ''Video not found'')) = None \<and>
   error (error_envelope (JStr ''Video not found'')) \<noteq> None \<and>
   \<not> ok plain_error_response \<and> \<not> isJson plain_error_response \<and>
   handleResponse plain_error_response = Inr (error_envelope (JStr ''An error occurred'')) \<and>
   ok (json_ok finished_video) \<and>
   handleResponse (json_ok finished_video) = Inr (data_envelope finished_video) \<and>
   data (data_envelope finished_video) \<noteq> None \<and>
   error (data_envelope finished_video) = None"
proof -
  have j: "isJson not_found_response" "\<not> ok not_found_response"
    by (simp_all add: isJson_def not_found_response_def)
  have h: "handleResponse not_found_response = Inr (error_envelope (JStr ''Video not found''))"
    using handleResponse_envelope [of not_found_response "error_envelope (JStr ''Video not found'')"
        "JObj [(''message'', JStr ''Video not found'')]" "JStr ''Video not found''" "[]"] j
    by (simp add: not_found_response_def)
  have e: "data (error_envelope (JStr ''Video not found'')) = None \<and>
      error (error_envelope (JStr ''Video not found'')) \<noteq> None"
    using h j handleResponse_envelope [of not_found_response "error_envelope (JStr ''Video not found'')"
        JNull JNull "[]"]
    by auto
  have p: "\<not> ok plain_error_response" "\<not> isJson plain_error_response"
    "body_text plain_error_response = Inr ''Internal Server Error''"
    by (simp_all add: isJson_def plain_error_response_def)
  have q: "handleResponse plain_error_response = Inr (error_envelope (JStr ''An error occurred''))"
    using p handleResponse_envelope [of plain_error_response
        "error_envelope (JStr ''An error occurred'')" JNull JNull "''Internal Server Error''"]
    by simp
  have o: "ok (json_ok finished_video)"
    by (simp add: json_ok_def)
  have d: "data (data_envelope finished_video) \<noteq> None \<and> error (data_envelope finished_video) = None"
    using o handleResponse_json_ok [of finished_video]
      handleResponse_envelope [of "json_ok finished_video" "data_envelope finished_video"
        JNull JNull "[]"]
    by auto
  show ?thesis
    using j h e p q o d handleResponse_json_ok [of finished_video] by simp
qed

text \<open>
  The claim as first stated fails: a body \<^verbatim>\<open>{"message": ""}\<close> has a message field, yet
  the error is the generic string; and on a body \<^verbatim>\<open>null\<close> with a status that is not ok
  no envelope is returned at all.
\<close>

theorem handleResponse_counterexample:
  "getProp (JObj [(''message'', JStr '''')]) ''message'' = Inr (JStr '''') \<and>
   handleResponse empty_message_response = Inr (error_envelope (JStr ''An error occurred'')) \<and>
   handleResponse null_body_response = Inl TypeError_nullish"
  by (simp add: handleResponse_def isJson_def empty_message_response_def null_body_response_def)

subsection \<open>Polling\<close>

text \<open>
  C8. A poll request that fails (its transport throws, or its response cannot be
  parsed) leaves the interval set: the firing only logs the failure, calls neither
  \<^verbatim>\<open>onProgress\<close> nor \<^verbatim>\<open>clearInterval\<close>, and the next firing happens as if nothing had
  occurred. After any number of failing polls in a row the job is still being polled,
  one firing per second.
\<close>

theorem poll_failure_keeps_polling:
  "(poll_fails inp \<longrightarrow>
      \<not> cleared (poll_tick inline result_at jobId inp) \<and>
      tick_calls (poll_tick inline result_at jobId inp) = [] \<and>
      logged (poll_tick inline result_at jobId inp) \<noteq> None \<and>
      run_interval (poll_tick inline result_at jobId) (inp # rest) =
        poll_tick inline result_at jobId inp # run_interval (poll_tick inline result_at jobId) rest) \<and>
   (list_all poll_fails pre \<longrightarrow>
      run_interval (poll_tick inline result_at jobId) (pre @ rest) =
        map (poll_tick inline result_at jobId) pre @ run_interval (poll_tick inline result_at jobId) rest \<and>
      still_polling (run_interval (poll_tick inline result_at jobId) pre) \<and>
      length (run_interval (poll_tick inline result_at jobId) pre) = length pre)"
proof -
  have one: "\<not> cleared (poll_tick inline result_at jobId i)" if "poll_fails i" for i
    using poll_tick_fails [OF that, of inline result_at jobId] by auto
  have all: "list_all poll_fails pre \<Longrightarrow>
      list_all (\<lambda>i. \<not> cleared (poll_tick inline result_at jobId i)) pre"
    using one by (simp add: list_all_iff)
  have run: "\<And>rest'. list_all poll_fails pre \<Longrightarrow>
      run_interval (poll_tick inline result_at jobId) (pre @ rest') =
        map (poll_tick inline result_at jobId) pre @ run_interval (poll_tick inline result_at jobId) rest'"
    using all run_interval_uncleared by blast
  have first: "poll_fails inp \<Longrightarrow>
      \<not> cleared (poll_tick inline result_at jobId inp) \<and>
      tick_calls (poll_tick inline result_at jobId inp) = [] \<and>
      logged (poll_tick inline result_at jobId inp) \<noteq> None"
    using poll_tick_fails [of inp inline result_at jobId] by auto
  have pre_only: "list_all poll_fails pre \<Longrightarrow>
      run_interval (poll_tick inline result_at jobId) pre = map (poll_tick inline result_at jobId) pre"
    using run [of "[]"] by simp
  show ?thesis
    using first run all pre_only
    by (auto simp: still_polling_def Let_def list_all_iff)
qed

theorem poll_failure_keeps_polling_witness:
  "poll_fails \<lparr>progress_fetch = Resp unparsable_response, result_fetch = failed_fetch\<rparr> \<and>
   \<not> cleared (processVideo_tick ''1'' (JStr ''job-1'')
       \<lparr>progress_fetch = Resp unparsable_response, result_fetch = failed_fetch\<rparr>) \<and>
   tick_calls (processVideo_tick ''1'' (JStr ''job-1'')
       \<lparr>progress_fetch = Resp unparsable_response, result_fetch = failed_fetch\<rparr>) = [] \<and>
   list_all poll_fails failing_polls \<and>
   observed (run_interval (processVideo_tick ''1'' (JStr ''job-1''))
     (failing_polls @ [progress_poll 50 False])) = [JNum 50] \<and>
   still_polling (run_interval (processVideo_tick ''1'' (JStr ''job-1'')) failing_polls) \<and>
   length (run_interval (processVideo_tick ''1'' (JStr ''job-1'')) failing_polls) = 2"
proof -
  have f: "list_all poll_fails failing_polls"
    "poll_fails \<lparr>progress_fetch = Resp unparsable_response, result_fetch = failed_fetch\<rparr>"
    by (simp_all add: failing_polls_def failed_fetch_def poll_fails_def unparsable_response_def
        handleResponse_def isJson_def)
  have t: "observed (run_interval (processVideo_tick ''1'' (JStr ''job-1''))
      [progress_poll 50 False]) = [JNum 50]"
    by (simp add: observed_def processVideo_tick_def poll_tick_def progress_poll_def json_ok_def
        handleResponse_def isJson_def read_data_def data_envelope_def)
  have l: "length failing_polls = 2"
    by (simp add: failing_polls_def)
  have c: "observed (map (processVideo_tick ''1'' (JStr ''job-1'')) failing_polls) = []"
    by (simp add: failing_polls_def failed_fetch_def observed_def processVideo_tick_def
        poll_tick_def unparsable_response_def handleResponse_def isJson_def)
  show ?thesis
    using f t l c
      poll_failure_keeps_polling [where inline = False and result_at = "GetVideo ''1''"
        and jobId = "JStr ''job-1''" and pre = failing_polls and rest = "[progress_poll 50 False]"
        and inp = "\<lparr>progress_fetch = Resp unparsable_response, result_fetch = failed_fetch\<rparr>"]
    by (simp add: processVideo_tick_def observed_def)
qed




text \<open>
  C2 (as amended). When a poll reports completion the firing clears the interval, so
  there is no further poll and no further progress callback for that job. That firing
  computes the final result as its own return value: in \<^verbatim>\<open>uploadYoutubeVideo\<close> the
  \<^verbatim>\<open>videoData\<close> of the poll response when it carries one, and otherwise the envelope
  of one more request, for the job's result resource; in \<^verbatim>\<open>processVideo\<close> and
  \<^verbatim>\<open>generateClips\<close> the envelope of one more request, for the video and for its clips.
  The caller of the submitting operation has by then been given the placeholder the
  operation returns as soon as it has started the interval.
\<close>

theorem completed_poll_stops_polling:
  "(poll_answer inp = Some (p, c, v) \<and> truthy c \<longrightarrow>
      cleared (poll_tick inline result_at jobId inp) \<and>
      run_interval (poll_tick inline result_at jobId) (inp # rest) =
        [poll_tick inline result_at jobId inp] \<and>
      observed (run_interval (poll_tick inline result_at jobId) (inp # rest)) = [p]) \<and>
   (poll_answer inp = Some (p, c, v) \<and> truthy c \<and> truthy v \<longrightarrow>
      tick_value (uploadYoutubeVideo_tick jobId inp) = Some (data_envelope v) \<and>
      fetched (uploadYoutubeVideo_tick jobId inp) = [GetJobProgress jobId]) \<and>
   (poll_answer inp = Some (p, c, v) \<and> truthy c \<and> \<not> truthy v \<and>
    result_fetch inp = Resp videoResponse \<and> handleResponse videoResponse = Inr final \<longrightarrow>
      tick_value (uploadYoutubeVideo_tick jobId inp) = Some final \<and>
      fetched (uploadYoutubeVideo_tick jobId inp) = [GetJobProgress jobId, GetJobResult jobId]) \<and>
   (poll_answer inp = Some (p, c, v) \<and> truthy c \<and>
    result_fetch inp = Resp videoResponse \<and> handleResponse videoResponse = Inr final \<longrightarrow>
      tick_value (processVideo_tick videoId jobId inp) = Some final \<and>
      fetched (processVideo_tick videoId jobId inp) = [GetJobProgress jobId, GetVideo videoId] \<and>
      tick_value (generateClips_tick videoId jobId inp) = Some final \<and>
      fetched (generateClips_tick videoId jobId inp) = [GetJobProgress jobId, GetClips videoId]) \<and>
   (polling (processVideo videoId onProgress submit) = Some jobId \<longrightarrow>
      returned (processVideo videoId onProgress submit) = processing_placeholder (JStr videoId)) \<and>
   (polling (generateClips videoId onProgress submit) = Some jobId \<longrightarrow>
      returned (generateClips videoId onProgress submit) = data_envelope (JArr [])) \<and>
   (polling (uploadYoutubeVideo u onProgress q submit result env h) = Some jobId \<longrightarrow>
      returned (uploadYoutubeVideo u onProgress q submit result env h) =
        processing_placeholder jobId)"
proof -
  have stop: "cleared (poll_tick inline result_at jobId inp) \<and>
      run_interval (poll_tick inline result_at jobId) (inp # rest) =
        [poll_tick inline result_at jobId inp] \<and>
      observed (run_interval (poll_tick inline result_at jobId) (inp # rest)) = [p]"
    if "poll_answer inp = Some (p, c, v)" "truthy c"
    using poll_tick_answer [OF that(1), of inline result_at jobId] that(2)
    by (simp add: observed_def Let_def)
  have inl: "tick_value (uploadYoutubeVideo_tick jobId inp) = Some (data_envelope v) \<and>
      fetched (uploadYoutubeVideo_tick jobId inp) = [GetJobProgress jobId]"
    if "poll_answer inp = Some (p, c, v)" "truthy c" "truthy v"
    using completed_tick_inline [OF that, of "GetJobResult jobId" jobId]
    by (simp add: uploadYoutubeVideo_tick_def)
  have ext: "tick_value (uploadYoutubeVideo_tick jobId inp) = Some final \<and>
      fetched (uploadYoutubeVideo_tick jobId inp) = [GetJobProgress jobId, GetJobResult jobId]"
    if "poll_answer inp = Some (p, c, v)" "truthy c" "\<not> truthy v"
      "result_fetch inp = Resp videoResponse" "handleResponse videoResponse = Inr final"
    using completed_tick_fetch [OF that(1,2) _ that(4,5), of True "GetJobResult jobId" jobId] that(3)
    by (simp add: uploadYoutubeVideo_tick_def)
  have oth: "tick_value (processVideo_tick videoId jobId inp) = Some final \<and>
      fetched (processVideo_tick videoId jobId inp) = [GetJobProgress jobId, GetVideo videoId] \<and>
      tick_value (generateClips_tick videoId jobId inp) = Some final \<and>
      fetched (generateClips_tick videoId jobId inp) = [GetJobProgress jobId, GetClips videoId]"
    if "poll_answer inp = Some (p, c, v)" "truthy c"
      "result_fetch inp = Resp videoResponse" "handleResponse videoResponse = Inr final"
    using completed_tick_fetch [OF that(1,2) _ that(3,4), of False "GetVideo videoId" jobId]
      completed_tick_fetch [OF that(1,2) _ that(3,4), of False "GetClips videoId" jobId]
    by (simp add: processVideo_tick_def generateClips_tick_def)
  have pv: "returned (processVideo videoId onProgress submit) = processing_placeholder (JStr videoId)"
    if "polling (processVideo videoId onProgress submit) = Some jobId"
    using polling_processVideo [OF that] accepted_processVideo [of submit jobId videoId onProgress]
    by simp
  have gc: "returned (generateClips videoId onProgress submit) = data_envelope (JArr [])"
    if "polling (generateClips videoId onProgress submit) = Some jobId"
    using polling_generateClips [OF that] accepted_generateClips [of submit jobId videoId onProgress]
    by simp
  have yt: "returned (uploadYoutubeVideo u onProgress q submit result env h) =
        processing_placeholder jobId"
    if "polling (uploadYoutubeVideo u onProgress q submit result env h) = Some jobId"
    using polling_uploadYoutubeVideo [OF that]
      accepted_uploadYoutubeVideo_callback [of submit jobId u q result env h]
    by simp
  show ?thesis
    using stop inl ext oth pv gc yt by blast
qed

theorem completed_poll_stops_polling_witness:
  "poll_answer completed_inline = Some (JNum 100, JBool True, finished_video) \<and>
   truthy (JBool True) \<and> truthy finished_video \<and>
   run_interval (uploadYoutubeVideo_tick (JStr ''job-1'')) [completed_inline, progress_poll 100 True] =
     [uploadYoutubeVideo_tick (JStr ''job-1'') completed_inline] \<and>
   tick_value (uploadYoutubeVideo_tick (JStr ''job-1'') completed_inline) =
     Some (data_envelope finished_video) \<and>
   fetched (uploadYoutubeVideo_tick (JStr ''job-1'') completed_inline) =
     [GetJobProgress (JStr ''job-1'')] \<and>
   poll_answer completed_plain = Some (JNum 100, JBool True, JUndefined) \<and>
   \<not> truthy JUndefined \<and> result_fetch completed_plain = Resp (json_ok finished_video) \<and>
   handleResponse (json_ok finished_video) = Inr (data_envelope finished_video) \<and>
   tick_value (uploadYoutubeVideo_tick (JStr ''job-1'') completed_plain) =
     Some (data_envelope finished_video) \<and>
   fetched (uploadYoutubeVideo_tick (JStr ''job-1'') completed_plain) =
     [GetJobProgress (JStr ''job-1''), GetJobResult (JStr ''job-1'')] \<and>
   fetched (processVideo_tick ''7'' (JStr ''job-1'') completed_plain) =
     [GetJobProgress (JStr ''job-1''), GetVideo ''7''] \<and>
   fetched (generateClips_tick ''7'' (JStr ''job-1'') completed_plain) =
     [GetJobProgress (JStr ''job-1''), GetClips ''7''] \<and>
   polling (processVideo ''7'' True job_accepted) = Some (JStr ''job-1'') \<and>
   returned (processVideo ''7'' True job_accepted) = processing_placeholder (JStr ''7'') \<and>
   polling (generateClips ''7'' True job_accepted) = Some (JStr ''job-1'') \<and>
   returned (generateClips ''7'' True job_accepted) = data_envelope (JArr []) \<and>
   polling (uploadYoutubeVideo ''https://youtu.be/dQw4w9WgXcQ'' True ''720p'' job_accepted
     failed_fetch env0 initial_heap) = Some (JStr ''job-1'') \<and>
   returned (uploadYoutubeVideo ''https://youtu.be/dQw4w9WgXcQ'' True ''720p'' job_accepted
     failed_fetch env0 initial_heap) = processing_placeholder (JStr ''job-1'')"
proof -
  have t: "truthy (JBool True) \<and> truthy finished_video \<and> \<not> truthy JUndefined"
    by (simp add: finished_video_def)
  have r: "result_fetch completed_plain = Resp (json_ok finished_video)"
    by (simp add: completed_plain_def result_ready_def)
  have p: "polling (uploadYoutubeVideo ''https://youtu.be/dQw4w9WgXcQ'' True ''720p'' job_accepted
     failed_fetch env0 initial_heap) = Some (JStr ''job-1'')"
    using accepted_uploadYoutubeVideo_callback [OF accepted_job_accepted] by simp
  have pv: "polling (processVideo ''7'' True job_accepted) = Some (JStr ''job-1'')"
    using accepted_processVideo [OF accepted_job_accepted] by simp
  have gc: "polling (generateClips ''7'' True job_accepted) = Some (JStr ''job-1'')"
    using accepted_generateClips [OF accepted_job_accepted] by simp
  have inl: "run_interval (uploadYoutubeVideo_tick (JStr ''job-1''))
        [completed_inline, progress_poll 100 True] =
       [uploadYoutubeVideo_tick (JStr ''job-1'') completed_inline] \<and>
     tick_value (uploadYoutubeVideo_tick (JStr ''job-1'') completed_inline) =
       Some (data_envelope finished_video) \<and>
     fetched (uploadYoutubeVideo_tick (JStr ''job-1'') completed_inline) =
       [GetJobProgress (JStr ''job-1'')] \<and>
     returned (processVideo ''7'' True job_accepted) = processing_placeholder (JStr ''7'') \<and>
     returned (generateClips ''7'' True job_accepted) = data_envelope (JArr []) \<and>
     returned (uploadYoutubeVideo ''https://youtu.be/dQw4w9WgXcQ'' True ''720p'' job_accepted
       failed_fetch env0 initial_heap) = processing_placeholder (JStr ''job-1'')"
    using t p pv gc poll_answer_completed_inline
      completed_poll_stops_polling [where inp = completed_inline and p = "JNum 100"
        and c = "JBool True" and v = finished_video and inline = True
        and result_at = "GetJobResult (JStr ''job-1'')" and jobId = "JStr ''job-1''"
        and rest = "[progress_poll 100 True]" and u = "''https://youtu.be/dQw4w9WgXcQ''"
        and onProgress = True and q = "''720p''" and submit = job_accepted
        and result = failed_fetch and env = env0 and h = initial_heap and videoId = "''7''"]
    by (simp add: uploadYoutubeVideo_tick_def)
  have pl: "tick_value (uploadYoutubeVideo_tick (JStr ''job-1'') completed_plain) =
       Some (data_envelope finished_video) \<and>
     fetched (uploadYoutubeVideo_tick (JStr ''job-1'') completed_plain) =
       [GetJobProgress (JStr ''job-1''), GetJobResult (JStr ''job-1'')] \<and>
     fetched (processVideo_tick ''7'' (JStr ''job-1'') completed_plain) =
       [GetJobProgress (JStr ''job-1''), GetVideo ''7''] \<and>
     fetched (generateClips_tick ''7'' (JStr ''job-1'') completed_plain) =
       [GetJobProgress (JStr ''job-1''), GetClips ''7'']"
    using t r poll_answer_completed_plain handleResponse_json_ok [of finished_video]
      completed_poll_stops_polling [where inp = completed_plain and p = "JNum 100"
        and c = "JBool True" and v = JUndefined and jobId = "JStr ''job-1''"
        and videoResponse = "json_ok finished_video" and final = "data_envelope finished_video"
        and videoId = "''7''"]
    by simp
  show ?thesis
    using t r p pv gc inl pl poll_answer_completed_inline poll_answer_completed_plain
      handleResponse_json_ok [of finished_video]
    by simp
qed

text \<open>
  The claim as first stated fails: the job is polled, the completing poll carries the
  video, and the firing returns it, but what the caller of \<^verbatim>\<open>uploadYoutubeVideo\<close> is
  given is the placeholder, which is not that video.
\<close>

theorem completed_poll_counterexample:
  "polling (uploadYoutubeVideo ''https://youtu.be/dQw4w9WgXcQ'' True ''720p'' job_accepted
     failed_fetch env0 initial_heap) = Some (JStr ''job-1'') \<and>
   poll_answer completed_inline = Some (JNum 100, JBool True, finished_video) \<and>
   tick_value (uploadYoutubeVideo_tick (JStr ''job-1'') completed_inline) =
     Some (data_envelope finished_video) \<and>
   returned (uploadYoutubeVideo ''https://youtu.be/dQw4w9WgXcQ'' True ''720p'' job_accepted
     failed_fetch env0 initial_heap) = processing_placeholder (JStr ''job-1'') \<and>
   processing_placeholder (JStr ''job-1'') \<noteq> data_envelope finished_video"
proof -
  have a: "uploadYoutubeVideo ''https://youtu.be/dQw4w9WgXcQ'' True ''720p'' job_accepted
      failed_fetch env0 initial_heap =
       \<lparr>returned = processing_placeholder (JStr ''job-1''), calls = [JNum 5, JNum 10],
        polling = Some (JStr ''job-1''),
        requested = [PostYoutubeDownload ''https://youtu.be/dQw4w9WgXcQ'' ''720p''],
        heap_after = initial_heap\<rparr>"
    by (rule accepted_uploadYoutubeVideo_callback [OF accepted_job_accepted])
  have t: "tick_value (uploadYoutubeVideo_tick (JStr ''job-1'') completed_inline) =
     Some (data_envelope finished_video)"
    using completed_tick_inline [OF poll_answer_completed_inline, of "GetJobResult (JStr ''job-1'')" "JStr ''job-1''"]
    by (simp add: uploadYoutubeVideo_tick_def finished_video_def)
  have n: "processing_placeholder (JStr ''job-1'') \<noteq> data_envelope finished_video"
    by (simp add: processing_placeholder_def data_envelope_def finished_video_def)
  show ?thesis
    using a t n poll_answer_completed_inline by simp
qed

subsection \<open>Submitting without a progress callback\<close>

text \<open>
  C1 (as amended). Without a progress callback no operation starts polling. Once the
  submission is accepted, \<^verbatim>\<open>processVideo\<close> returns the "processing" placeholder and
  \<^verbatim>\<open>generateClips\<close> an empty clip list, neither waiting for the job.
  \<^verbatim>\<open>uploadYoutubeVideo\<close> instead waits for the download: it requests the job's result
  resource and returns the envelope of that response.
\<close>

theorem no_callback_submission:
  "(accepted_job submit = Some jobId \<longrightarrow>
      processVideo videoId False submit =
        \<lparr>returned = processing_placeholder (JStr videoId), calls = [], polling = None,
         requested = [PostProcess videoId]\<rparr> \<and>
      generateClips videoId False submit =
        \<lparr>returned = data_envelope (JArr []), calls = [], polling = None,
         requested = [PostGenerateClips videoId]\<rparr>) \<and>
   (accepted_job submit = Some jobId \<and> handleResponse videoResponse = Inr video \<longrightarrow>
      uploadYoutubeVideo u False q submit (Resp videoResponse) env h =
        \<lparr>returned = video, calls = [], polling = None,
         requested = [PostYoutubeDownload u q, GetJobResult jobId], heap_after = h\<rparr>) \<and>
   polling (processVideo videoId False submit) = None \<and>
   polling (generateClips videoId False submit) = None \<and>
   polling (uploadYoutubeVideo u False q submit result env h) = None"
  using accepted_processVideo [of submit jobId videoId False]
    accepted_generateClips [of submit jobId videoId False]
    accepted_uploadYoutubeVideo_waits [of submit jobId videoResponse video u q env h]
    no_callback_processVideo [of videoId submit] no_callback_generateClips [of videoId submit]
    no_callback_uploadYoutubeVideo [of u q submit result env h]
  by simp

theorem no_callback_submission_witness:
  "accepted_job job_accepted = Some (JStr ''job-1'') \<and>
   handleResponse (json_ok finished_video) = Inr (data_envelope finished_video) \<and>
   returned (processVideo ''7'' False job_accepted) = processing_placeholder (JStr ''7'') \<and>
   returned (generateClips ''7'' False job_accepted) = data_envelope (JArr []) \<and>
   returned (uploadYoutubeVideo ''https://youtu.be/dQw4w9WgXcQ'' False ''720p'' job_accepted
     result_ready env0 initial_heap) = data_envelope finished_video \<and>
   polling (uploadYoutubeVideo ''https://youtu.be/dQw4w9WgXcQ'' False ''720p'' job_accepted
     result_ready env0 initial_heap) = None"
  using accepted_job_accepted handleResponse_json_ok [of finished_video]
    no_callback_submission [where submit = job_accepted and jobId = "JStr ''job-1''"
      and videoId = "''7''" and videoResponse = "json_ok finished_video"
      and video = "data_envelope finished_video" and u = "''https://youtu.be/dQw4w9WgXcQ''"
      and q = "''720p''" and env = env0 and h = initial_heap and result = result_ready]
  by (simp add: result_ready_def)

text \<open>
  The claim as first stated fails for \<^verbatim>\<open>uploadYoutubeVideo\<close>: without a callback it
  asks for the job's result and returns the finished video, not a placeholder.
\<close>

theorem no_callback_counterexample:
  "accepted_job job_accepted = Some (JStr ''job-1'') \<and>
   returned (uploadYoutubeVideo ''https://youtu.be/dQw4w9WgXcQ'' False ''720p'' job_accepted
     result_ready env0 initial_heap) = data_envelope finished_video \<and>
   requested (uploadYoutubeVideo ''https://youtu.be/dQw4w9WgXcQ'' False ''720p'' job_accepted
     result_ready env0 initial_heap) =
     [PostYoutubeDownload ''https://youtu.be/dQw4w9WgXcQ'' ''720p'', GetJobResult (JStr ''job-1'')] \<and>
   data_envelope finished_video \<noteq> processing_placeholder (JStr ''job-1'')"
proof -
  have a: "uploadYoutubeVideo ''https://youtu.be/dQw4w9WgXcQ'' False ''720p'' job_accepted
      result_ready env0 initial_heap =
       \<lparr>returned = data_envelope finished_video, calls = [], polling = None,
        requested = [PostYoutubeDownload ''https://youtu.be/dQw4w9WgXcQ'' ''720p'',
                     GetJobResult (JStr ''job-1'')],
        heap_after = initial_heap\<rparr>"
    unfolding result_ready_def
    by (rule accepted_uploadYoutubeVideo_waits [OF accepted_job_accepted handleResponse_json_ok])
  have n: "data_envelope finished_video \<noteq> processing_placeholder (JStr ''job-1'')"
    by (simp add: processing_placeholder_def data_envelope_def finished_video_def)
  show ?thesis
    using a n accepted_job_accepted by simp
qed

subsection \<open>The mock handler\<close>




text \<open>
  C9. \<^verbatim>\<open>mockGetUserVideos\<close> resolves with a new array that holds the elements of the
  mock video list. Whatever the caller then does to that array (adding, removing,
  reordering elements), the module's list keeps its elements and their order, and no
  record changes. The module's array exists before any call, so its reference is below
  the next unused one.
\<close>

theorem mockGetUserVideos_copy:
  "mockVideos < next_ref h \<longrightarrow>
     settled (mockGetUserVideos h) = Inr (next_ref h) \<and>
     next_ref h \<noteq> mockVideos \<and>
     array_at (mock_heap (mockGetUserVideos h)) (next_ref h) = array_at h mockVideos \<and>
     array_at (mock_heap (mockGetUserVideos h)) mockVideos = array_at h mockVideos \<and>
     array_at (fold (mutate_array (next_ref h)) ops (mock_heap (mockGetUserVideos h))) mockVideos =
       array_at h mockVideos \<and>
     objects (fold (mutate_array (next_ref h)) ops (mock_heap (mockGetUserVideos h))) = objects h"
proof
  assume a: "mockVideos < next_ref h"
  then have ne: "next_ref h \<noteq> mockVideos" by simp
  have s: "settled (mockGetUserVideos h) = Inr (next_ref h)"
    by (simp add: mockGetUserVideos_def alloc_array_def)
  have c: "array_at (mock_heap (mockGetUserVideos h)) (next_ref h) = array_at h mockVideos"
    by (simp add: mockGetUserVideos_def alloc_array_def array_at_def)
  have k: "arrays (mock_heap (mockGetUserVideos h)) mockVideos = arrays h mockVideos"
    using ne by (simp add: mockGetUserVideos_def alloc_array_def)
  have o: "objects (mock_heap (mockGetUserVideos h)) = objects h"
    by (simp add: mockGetUserVideos_def alloc_array_def)
  have m: "arrays (fold (mutate_array (next_ref h)) ops (mock_heap (mockGetUserVideos h))) mockVideos =
      arrays h mockVideos"
    using fold_mutate_array_other [OF ne] k by simp
  show "settled (mockGetUserVideos h) = Inr (next_ref h) \<and>
     next_ref h \<noteq> mockVideos \<and>
     array_at (mock_heap (mockGetUserVideos h)) (next_ref h) = array_at h mockVideos \<and>
     array_at (mock_heap (mockGetUserVideos h)) mockVideos = array_at h mockVideos \<and>
     array_at (fold (mutate_array (next_ref h)) ops (mock_heap (mockGetUserVideos h))) mockVideos =
       array_at h mockVideos \<and>
     objects (fold (mutate_array (next_ref h)) ops (mock_heap (mockGetUserVideos h))) = objects h"
    using ne s c k o m by (simp add: array_at_def fold_mutate_array_objects)
qed

theorem mockGetUserVideos_copy_witness:
  "mockVideos < next_ref initial_heap \<and>
   settled (mockGetUserVideos initial_heap) = Inr 4 \<and>
   array_at (mock_heap (mockGetUserVideos initial_heap)) 4 = [1, 2, 3] \<and>
   array_at (fold (mutate_array 4) caller_edits (mock_heap (mockGetUserVideos initial_heap))) 4 = [3, 2] \<and>
   array_at (fold (mutate_array 4) caller_edits (mock_heap (mockGetUserVideos initial_heap))) mockVideos =
     [1, 2, 3]"
proof -
  have n: "next_ref initial_heap = 4" "array_at initial_heap mockVideos = [1, 2, 3]"
    "mockVideos < next_ref initial_heap"
    by (simp_all add: initial_heap_def array_at_def mockVideos_def)
  have e: "array_at (fold (mutate_array 4) caller_edits (mock_heap (mockGetUserVideos initial_heap))) 4 = [3, 2]"
    by (simp add: caller_edits_def mutate_array_def mockGetUserVideos_def alloc_array_def
        array_at_def initial_heap_def mockVideos_def)
  show ?thesis
    using n e mockGetUserVideos_copy [of initial_heap caller_edits] by simp
qed

text \<open>
  C10. For a video id that no record of the mock video list carries,
  \<^verbatim>\<open>mockProcessVideo\<close> gives a promise rejected with "Video not found", never calls
  \<^verbatim>\<open>onProgress\<close>, and leaves the heap, and so the list and every record, as it was.
\<close>

theorem mockProcessVideo_not_found:
  "videoId \<notin> set (map (\<lambda>(r, v). video_id v) (video_list h)) \<longrightarrow>
     mockProcessVideo videoId settings_platform onProgress h =
       \<lparr>settled = Inl (JsError ''Video not found''), mock_calls = [], mock_heap = h\<rparr>"
proof
  assume a: "videoId \<notin> set (map (\<lambda>(r, v). video_id v) (video_list h))"
  have "List.find (\<lambda>(r, v). video_id v = videoId) (video_list h) = None"
    using a by (auto simp: find_None_iff)
  then show "mockProcessVideo videoId settings_platform onProgress h =
       \<lparr>settled = Inl (JsError ''Video not found''), mock_calls = [], mock_heap = h\<rparr>"
    by (simp add: mockProcessVideo_def)
qed

theorem mockProcessVideo_not_found_witness:
  "''99'' \<notin> set (map (\<lambda>(r, v). video_id v) (video_list initial_heap)) \<and>
   mockProcessVideo ''99'' ''TikTok'' True initial_heap =
     \<lparr>settled = Inl (JsError ''Video not found''), mock_calls = [], mock_heap = initial_heap\<rparr>"
proof -
  have a: "''99'' \<notin> set (map (\<lambda>(r, v). video_id v) (video_list initial_heap))"
    unfolding video_ids_initial by simp
  show ?thesis
    using a mockProcessVideo_not_found [of "''99''" initial_heap "''TikTok''" True] by simp
qed


subsection \<open>Addresses that are no YouTube address\<close>

text \<open>
  C5 (as amended). Under the mock handler's pattern an address has either no video id
  or one of 11 characters. When it has none and the download request fails in
  transport, \<^verbatim>\<open>uploadYoutubeVideo\<close> returns the error envelope "Invalid YouTube URL",
  starts no polling and leaves the mock video list as it was. A callback, when one is
  given, is called exactly once, with the 5 that the operation reports before it sends
  the request; the mock handler itself never calls it.
\<close>

theorem invalid_url_with_mock_fallback:
  "(getYoutubeVideoId youtubeUrl = Inr None \<or>
    (\<exists>v. getYoutubeVideoId youtubeUrl = Inr (Some v) \<and> length v = 11)) \<and>
   (getYoutubeVideoId youtubeUrl = Inr None \<longrightarrow>
      uploadYoutubeVideo youtubeUrl onProgress quality (Threw fetchError) result env h =
        \<lparr>returned = error_envelope (JStr ''Invalid YouTube URL''),
         calls = (if onProgress then [JNum 5] else []), polling = None,
         requested = [PostYoutubeDownload youtubeUrl quality], heap_after = h\<rparr> \<and>
      mockUploadYoutubeVideo youtubeUrl onProgress env h =
        \<lparr>settled = Inl (JsError ''Invalid YouTube URL''), mock_calls = [], mock_heap = h\<rparr>)"
proof -
  have mock: "mockUploadYoutubeVideo youtubeUrl onProgress env h =
        \<lparr>settled = Inl (JsError ''Invalid YouTube URL''), mock_calls = [], mock_heap = h\<rparr>"
    if "getYoutubeVideoId youtubeUrl = Inr None"
    using that by (simp add: mockUploadYoutubeVideo_def)
  have client: "uploadYoutubeVideo youtubeUrl onProgress quality (Threw fetchError) result env h =
        \<lparr>returned = error_envelope (JStr ''Invalid YouTube URL''),
         calls = (if onProgress then [JNum 5] else []), polling = None,
         requested = [PostYoutubeDownload youtubeUrl quality], heap_after = h\<rparr>"
    if "getYoutubeVideoId youtubeUrl = Inr None"
    using mock [OF that] by (simp add: uploadYoutubeVideo_def mock_fallback_def caught_def Let_def)
  show ?thesis
    using getYoutubeVideoId_cases [of youtubeUrl] mock client by blast
qed

theorem invalid_url_with_mock_fallback_witness:
  "getYoutubeVideoId vimeo_url = Inr None \<and>
   uploadYoutubeVideo vimeo_url True ''720p'' failed_fetch failed_fetch env0 initial_heap =
       \<lparr>returned = error_envelope (JStr ''Invalid YouTube URL''),
        calls = [JNum 5], polling = None,
        requested = [PostYoutubeDownload vimeo_url ''720p''], heap_after = initial_heap\<rparr>"
  using vimeo_no_id
    invalid_url_with_mock_fallback [of vimeo_url True "''720p''" "JsError ''Failed to fetch''"
      failed_fetch env0 initial_heap]
  by (simp add: failed_fetch_def)

text \<open>
  The claim as first stated fails: for an address of another site the callback has
  been called, with 5, by the time the error envelope is returned.
\<close>

theorem invalid_url_counterexample:
  "getYoutubeVideoId vimeo_url = Inr None \<and>
   calls (uploadYoutubeVideo vimeo_url True ''720p'' failed_fetch failed_fetch env0 initial_heap) =
     [JNum 5] \<and>
   returned (uploadYoutubeVideo vimeo_url True ''720p'' failed_fetch failed_fetch env0 initial_heap) =
     error_envelope (JStr ''Invalid YouTube URL'')"
  using vimeo_no_id
  by (simp add: failed_fetch_def uploadYoutubeVideo_def mock_fallback_def
      mockUploadYoutubeVideo_def caught_def Let_def)

subsection \<open>Files above the size limit\<close>

text \<open>
  C7 (as amended). A file larger than \<open>maxFileSize\<close> megabytes is never among the files
  that validation lets through, so it is never the file given to \<^verbatim>\<open>uploadVideo\<close>:
  it is rejected before any request is made. When its extension is one of the
  supported formats, \<^verbatim>\<open>setError\<close> is called with
  "File too large: NAME. Maximum size is MAXMB", which contains the file's name, and
  that is the error shown when the file was chosen alone. (A file whose extension is
  not supported is rejected with the message about the format instead.)
\<close>

theorem oversize_file_rejected:
  "f \<in> set fileList \<and> file_size f > maxFileSize * 1024 * 1024 \<longrightarrow>
     f \<notin> set (fst (validateFiles supportedFormats maxFileSize fileList)) \<and>
     fst (handleFileInputChange supportedFormats maxFileSize fileList) \<noteq> Some f \<and>
     (extension_of (file_name f) \<in> set supportedFormats \<longrightarrow>
        Some (too_large_message maxFileSize (file_name f)) \<in>
          set (snd (validateFiles supportedFormats maxFileSize fileList)) \<and>
        (\<exists>pre post. too_large_message maxFileSize (file_name f) = pre @ file_name f @ post) \<and>
        handleFileInputChange supportedFormats maxFileSize [f] =
          (None, Some (too_large_message maxFileSize (file_name f))))"
proof
  assume a: "f \<in> set fileList \<and> file_size f > maxFileSize * 1024 * 1024"
  have rej: "rejected supportedFormats maxFileSize f \<noteq> None"
    using a by (simp add: rejected_def)
  have valid: "fst (validateFiles supportedFormats maxFileSize fileList) =
      filter (\<lambda>f. rejected supportedFormats maxFileSize f = None) fileList"
    by (simp add: validateFiles_def validate_loop_eq)
  have errs: "snd (validateFiles supportedFormats maxFileSize fileList) =
      None # List.map_filter (\<lambda>f. map_option Some (rejected supportedFormats maxFileSize f)) fileList"
    by (simp add: validateFiles_def validate_loop_eq)
  have notin: "f \<notin> set (fst (validateFiles supportedFormats maxFileSize fileList))"
    using rej by (simp add: valid)
  have target: "fst (handleFileInputChange supportedFormats maxFileSize fileList) \<noteq> Some f"
  proof
    assume t: "fst (handleFileInputChange supportedFormats maxFileSize fileList) = Some f"
    then have "f \<in> set (fst (validateFiles supportedFormats maxFileSize fileList))"
      by (auto simp: handleFileInputChange_def split: if_splits prod.splits list.splits)
    with notin show False by simp
  qed
  have large: "Some (too_large_message maxFileSize (file_name f)) \<in>
          set (snd (validateFiles supportedFormats maxFileSize fileList)) \<and>
        (\<exists>pre post. too_large_message maxFileSize (file_name f) = pre @ file_name f @ post) \<and>
        handleFileInputChange supportedFormats maxFileSize [f] =
          (None, Some (too_large_message maxFileSize (file_name f)))"
    if e: "extension_of (file_name f) \<in> set supportedFormats"
  proof -
    have r: "rejected supportedFormats maxFileSize f = Some (too_large_message maxFileSize (file_name f))"
      using a e by (simp add: rejected_def)
    have m: "Some (too_large_message maxFileSize (file_name f)) \<in>
          set (snd (validateFiles supportedFormats maxFileSize fileList))"
      using a r map_filter_member [of f fileList
          "\<lambda>f. map_option Some (rejected supportedFormats maxFileSize f)"
          "Some (too_large_message maxFileSize (file_name f))"]
      by (simp add: errs)
    have c: "too_large_message maxFileSize (file_name f) =
        ''File too large: '' @ file_name f @ (''. Maximum size is '' @ show_nat maxFileSize @ ''MB'')"
      by (simp add: too_large_message_def del: show_nat.simps)
    have s: "handleFileInputChange supportedFormats maxFileSize [f] =
          (None, Some (too_large_message maxFileSize (file_name f)))"
      using r by (simp add: handleFileInputChange_def validateFiles_def validate_loop_eq map_filter_simps)
    show ?thesis
      using m c s by blast
  qed
  show "f \<notin> set (fst (validateFiles supportedFormats maxFileSize fileList)) \<and>
     fst (handleFileInputChange supportedFormats maxFileSize fileList) \<noteq> Some f \<and>
     (extension_of (file_name f) \<in> set supportedFormats \<longrightarrow>
        Some (too_large_message maxFileSize (file_name f)) \<in>
          set (snd (validateFiles supportedFormats maxFileSize fileList)) \<and>
        (\<exists>pre post. too_large_message maxFileSize (file_name f) = pre @ file_name f @ post) \<and>
        handleFileInputChange supportedFormats maxFileSize [f] =
          (None, Some (too_large_message maxFileSize (file_name f))))"
    using notin target large by blast
qed

theorem oversize_file_rejected_witness:
  "holiday_mp4 \<in> set [small_mov, holiday_mp4] \<and>
   500 * 1024 * 1024 < file_size holiday_mp4 \<and>
   extension_of (file_name holiday_mp4) \<in> set default_formats \<and>
   holiday_mp4 \<notin> set (fst (validateFiles default_formats 500 [small_mov, holiday_mp4])) \<and>
   validateFiles default_formats 500 [small_mov, holiday_mp4] =
     ([small_mov], [None, Some ''File too large: holiday.mp4. Maximum size is 500MB'']) \<and>
   handleFileInputChange default_formats 500 [small_mov, holiday_mp4] = (Some small_mov, None) \<and>
   handleFileInputChange default_formats 500 [holiday_mp4] =
     (None, Some ''File too large: holiday.mp4. Maximum size is 500MB'')"
proof -
  have sz: "500 * 1024 * 1024 < file_size holiday_mp4" "\<not> 500 * 1024 * 1024 < file_size small_mov"
    by (simp_all add: holiday_mp4_def small_mov_def)
  have ex: "extension_of (file_name holiday_mp4) \<in> set default_formats"
    "extension_of (file_name small_mov) \<in> set default_formats"
    by (simp_all add: ext_holiday ext_small default_formats_def)
  have msg: "too_large_message 500 (file_name holiday_mp4) =
      ''File too large: holiday.mp4. Maximum size is 500MB''"
    by (simp add: too_large_message_def holiday_mp4_def)
  have r: "rejected default_formats 500 holiday_mp4 =
        Some ''File too large: holiday.mp4. Maximum size is 500MB''"
      "rejected default_formats 500 small_mov = None"
    using sz ex msg by (simp_all add: rejected_def)
  have v: "validateFiles default_formats 500 [small_mov, holiday_mp4] =
     ([small_mov], [None, Some ''File too large: holiday.mp4. Maximum size is 500MB''])"
    using r by (simp add: validateFiles_def validate_loop_eq)
  have h: "handleFileInputChange default_formats 500 [small_mov, holiday_mp4] = (Some small_mov, None)"
    using v by (simp add: handleFileInputChange_def)
  show ?thesis
    using sz ex msg v h
      oversize_file_rejected [of holiday_mp4 "[small_mov, holiday_mp4]" 500 default_formats]
    by simp
qed

text \<open>
  The claim as first stated fails: a file that is too large and of an unsupported
  format is rejected with the message about the format, which does not contain the
  file's name.
\<close>

theorem oversize_file_counterexample:
  "500 * 1024 * 1024 < file_size big_exe \<and>
   validateFiles default_formats 500 [big_exe] =
     ([], [None, Some ''Unsupported file format: .exe. Please use: .mp4, .mov, .avi, .mkv, .webm'']) \<and>
   \<not> includes_str ''Unsupported file format: .exe. Please use: .mp4, .mov, .avi, .mkv, .webm''
       (file_name big_exe)"
proof -
  have sz: "500 * 1024 * 1024 < file_size big_exe"
    by (simp add: big_exe_def)
  have r: "rejected default_formats 500 big_exe =
      Some ''Unsupported file format: .exe. Please use: .mp4, .mov, .avi, .mkv, .webm''"
    by (simp add: rejected_def ext_big_exe default_formats_def unsupported_message_def)
  have v: "validateFiles default_formats 500 [big_exe] =
     ([], [None, Some ''Unsupported file format: .exe. Please use: .mp4, .mov, .avi, .mkv, .webm''])"
    using r by (simp add: validateFiles_def validate_loop_eq)
  have n: "\<not> includes_str ''Unsupported file format: .exe. Please use: .mp4, .mov, .avi, .mkv, .webm''
       (file_name big_exe)"
    by (simp add: big_exe_def)
  show ?thesis
    using sz v n by simp
qed

end
